theory Spec2Isabelle
  imports Complex_Main "HOL-Library.Sublist"
begin

chapter \<open>alert-aid: the client-side services\<close>

text \<open>
  A shallow embedding of the services whose logic is not rendering:
  \<^verbatim>\<open>src/services/locationHazardService.ts\<close>, \<^verbatim>\<open>src/services/disasterDataService.ts\<close>
  and \<^verbatim>\<open>src/services/shelterService.ts\<close>, and the cached operations of
  \<^verbatim>\<open>src/services/advancedMLApi.ts\<close>, of the alert service (\<^verbatim>\<open>src/unnamed/part_007\<close>) and
  of the simple weather service (\<^verbatim>\<open>src/unnamed/part_008\<close>).

  Conventions of the embedding.
  \<^item> A value that comes from outside (an argument, a JSON body) has its declared
    TypeScript type: a union of string literals is a datatype, an interface a record, an
    optional or nullable field an \<open>option\<close>.
  \<^item> A TypeScript \<^verbatim>\<open>number\<close> is a \<^typ>\<open>real\<close>: the comparisons and the sums of small
    integer weights of the source are exact in IEEE doubles as well. \<^verbatim>\<open>NaN\<close>, the
    infinities and the rounding of the trigonometric functions are outside the model; the
    section on the Haversine distance says where this matters.
  \<^item> A string is a \<^typ>\<open>string\<close>, each character one UTF-16 code unit below 256 (the
    characters of ASCII and Latin-1); strings with other code units are outside the
    model. A character of a literal of the source beyond ASCII (the emoji of the icons
    and warnings, the degree sign) is written by its code point, as in \<^verbatim>\<open>U+1F30A\<close>.
  \<^item> A template literal is the list of its pieces (type \<open>piece\<close>): literal text, an
    interpolated number, or a number under \<^verbatim>\<open>toFixed(1)\<close>. The rendered string is a function
    of the pieces, so two equal piece lists render equally.
  \<^item> What a function reads besides its arguments (the calendar month, the clock, the
    cache, the answer of the network) is an explicit argument of its model, and what it
    writes (the cache, the requests it sends) is part of the result.
\<close>

section \<open>Data model of the location hazard service\<close>

datatype terrain = Flat | Hilly | Mountainous | Coastal | Delta

datatype vegetation = Urban | Dense | ModerateVeg | Sparse | Desert

datatype floodHistory = NoFloods | Rare | Occasional | Frequent

record CityGeographicData =
  elevation :: real
  terrain :: terrain
  nearRiver :: bool
  riverDistance :: real
  nearCoast :: bool
  coastDistance :: real
  seismicZone :: nat
  annualRainfall :: real
  vegetation :: vegetation
  floodHistory :: floodHistory

record WeatherData =
  temperature :: real
  humidity :: real
  windSpeed :: real
  rainfall24h :: real
  pressure :: real
  description :: string
  clouds :: real

datatype hazardType = Flood | Earthquake | Storm | Fire | Landslide

datatype riskLevel = Low | Moderate | High | Critical

datatype trend = Decreasing | Stable | Increasing

datatype piece = Txt string | Num real | Fixed1 real

type_synonym template = "piece list"

record HazardRiskResult =
  hazard_type :: hazardType
  hazard_name :: string
  icon :: string
  riskLevel :: riskLevel
  probability :: real
  confidence :: real
  factors :: "template list"
  trend :: trend
  timeframe :: string
  recommendations :: "string list"
  dataSource :: string

section \<open>The geographic table and its lookup\<close>

text \<open>
  \<^verbatim>\<open>CITY_GEOGRAPHIC_DATA\<close>: its own entries, in the order of the object literal, which is
  the order \<^verbatim>\<open>Object.entries\<close> enumerates them in.
\<close>

definition mkGeo ::
  "real \<Rightarrow> terrain \<Rightarrow> bool \<Rightarrow> real \<Rightarrow> bool \<Rightarrow> real \<Rightarrow> nat \<Rightarrow> real \<Rightarrow> vegetation \<Rightarrow> floodHistory
    \<Rightarrow> CityGeographicData" where
  "mkGeo e t nr rd nc cd z ar v fh =
     \<lparr>elevation = e, terrain = t, nearRiver = nr, riverDistance = rd, nearCoast = nc,
      coastDistance = cd, seismicZone = z, annualRainfall = ar, vegetation = v,
      floodHistory = fh\<rparr>"

definition CITY_GEOGRAPHIC_DATA :: "(string \<times> CityGeographicData) list" where
  "CITY_GEOGRAPHIC_DATA =
     [(''delhi'', mkGeo 216 Flat True 5 False 1000 4 797 Urban Occasional),
      (''new delhi'', mkGeo 216 Flat True 8 False 1000 4 797 Urban Rare),
      (''gurgaon'', mkGeo 217 Flat False 25 False 950 4 650 Urban Rare),
      (''noida'', mkGeo 200 Flat True 3 False 1020 4 800 Urban Occasional),
      (''mumbai'', mkGeo 14 Coastal True 2 True 0 3 2422 Urban Frequent),
      (''chennai'', mkGeo 6 Coastal True 1 True 0 3 1400 Urban Frequent),
      (''kolkata'', mkGeo 9 Delta True 0 False 100 3 1582 Urban Frequent),
      (''bangalore'', mkGeo 920 Hilly False 50 False 350 2 970 Urban Occasional),
      (''bengaluru'', mkGeo 920 Hilly False 50 False 350 2 970 Urban Occasional),
      (''shimla'', mkGeo 2276 Mountainous True 10 False 1200 4 1575 Dense Rare),
      (''dehradun'', mkGeo 435 Hilly True 5 False 1100 4 2073 ModerateVeg Occasional),
      (''jaipur'', mkGeo 431 Flat False 50 False 500 2 650 Sparse Rare),
      (''default'', mkGeo 200 Flat False 100 False 500 2 800 ModerateVeg Rare)]"

text \<open>
  \<^verbatim>\<open>String.prototype.toLowerCase\<close>, \<^verbatim>\<open>trim\<close> and \<^verbatim>\<open>includes\<close> on strings of code
  units below 256. The letters with a lower case there are A to Z and U+00C0 to U+00DE
  without the multiplication sign U+00D7; the lower case is 32 further. The white space
  and line terminators that \<^verbatim>\<open>trim\<close> strips are, below 256, the characters TAB, LF, VT,
  FF, CR, the space and the no-break space U+00A0.
\<close>

definition lowerChar :: "char \<Rightarrow> char" where
  "lowerChar c =
     (let n = (of_char c :: nat)
      in if (65 \<le> n \<and> n \<le> 90) \<or> (192 \<le> n \<and> n \<le> 222 \<and> n \<noteq> 215) then char_of (n + 32)
         else c)"

definition toLowerCase :: "string \<Rightarrow> string" where
  "toLowerCase s = map lowerChar s"

definition isWhiteSpace :: "char \<Rightarrow> bool" where
  "isWhiteSpace c \<longleftrightarrow>
     c \<in> set [CHR 0x09, CHR 0x0A, CHR 0x0B, CHR 0x0C, CHR 0x0D, CHR '' '', CHR 0xA0]"

definition trim :: "string \<Rightarrow> string" where
  "trim s = rev (dropWhile isWhiteSpace (rev (dropWhile isWhiteSpace s)))"

definition str_includes :: "string \<Rightarrow> string \<Rightarrow> bool" where
  "str_includes s t \<longleftrightarrow> sublist t s"

text \<open>\<^verbatim>\<open>estimateGeographicData\<close>: the estimate from the coordinates.\<close>

definition estimateGeographicData :: "real \<Rightarrow> real \<Rightarrow> CityGeographicData" where
  "estimateGeographicData lat lon =
     (let isHimalayanRegion = (lat > 28 \<and> lat < 36 \<and> lon > 74 \<and> lon < 92);
          isCoastal = ((lon < 73 \<or> lon > 87) \<or> lat < 12);
          isGangeticPlain = (lat > 22 \<and> lat < 28 \<and> lon > 78 \<and> lon < 90);
          isTharDesert = (lat > 24 \<and> lat < 30 \<and> lon > 68 \<and> lon < 76);
          isWesternGhats = (lon > 73 \<and> lon < 78 \<and> lat > 8 \<and> lat < 21);
          (terrain, seismicZone, elevation) =
            (if isHimalayanRegion then (Mountainous, 5, 2000)
             else if isWesternGhats then (Hilly, 3, 800)
             else if isCoastal then (Coastal, 3, 10)
             else if isGangeticPlain then (Flat, 4, 80)
             else (Flat, 2, 200))
      in \<lparr>elevation = elevation,
          terrain = terrain,
          nearRiver = (isGangeticPlain \<or> isCoastal),
          riverDistance = (if isGangeticPlain then 20 else 100),
          nearCoast = isCoastal,
          coastDistance = (if isCoastal then 10 else 500),
          seismicZone = seismicZone,
          annualRainfall = (if isCoastal then 2000 else (if isTharDesert then 300 else 800)),
          vegetation = (if isTharDesert then Desert else (if isCoastal then ModerateVeg else Urban)),
          floodHistory = (if isGangeticPlain \<or> isCoastal then Occasional else Rare)\<rparr>)"

text \<open>
  The loop over the entries of the table: the first entry whose key contains the
  normalised name, or is contained in it.
\<close>

fun partialMatch :: "string \<Rightarrow> (string \<times> CityGeographicData) list \<Rightarrow> CityGeographicData option" where
  "partialMatch normalizedCity [] = None"
| "partialMatch normalizedCity ((key, data) # entries) =
     (if str_includes normalizedCity key \<or> str_includes key normalizedCity then Some data
      else partialMatch normalizedCity entries)"

text \<open>
  The property access \<^verbatim>\<open>CITY_GEOGRAPHIC_DATA[normalizedCity]\<close>. The table is an object
  literal, so besides its own entries the access finds what every object inherits from
  \<^verbatim>\<open>Object.prototype\<close>: eleven functions, and under \<^verbatim>\<open>__proto__\<close> the prototype itself.
  Each of these twelve values is truthy, and none is a geographic record. A value of
  the access is therefore a record of the table or an inherited value, kept by its key.
\<close>

datatype geoValue = GeoRecord CityGeographicData | InheritedValue string

definition objectPrototypeKeys :: "string list" where
  "objectPrototypeKeys =
     [''constructor'', ''__defineGetter__'', ''__defineSetter__'', ''hasOwnProperty'',
      ''__lookupGetter__'', ''__lookupSetter__'', ''isPrototypeOf'', ''propertyIsEnumerable'',
      ''toString'', ''valueOf'', ''__proto__'', ''toLocaleString'']"

definition getProperty :: "(string \<times> CityGeographicData) list \<Rightarrow> string \<Rightarrow> geoValue option" where
  "getProperty table key =
     (case map_of table key of
        Some d \<Rightarrow> Some (GeoRecord d)
      | None \<Rightarrow> if key \<in> set objectPrototypeKeys then Some (InheritedValue key) else None)"

text \<open>
  \<^verbatim>\<open>getGeographicData\<close>: the exact access, then the loop over the entries, then the
  estimate. Its declared return type is \<^verbatim>\<open>CityGeographicData\<close>; what it returns is the
  value of the access when that is truthy.
\<close>

definition getGeographicData :: "string \<Rightarrow> real \<Rightarrow> real \<Rightarrow> geoValue" where
  "getGeographicData cityName lat lon =
     (let normalizedCity = trim (toLowerCase cityName)
      in case getProperty CITY_GEOGRAPHIC_DATA normalizedCity of
           Some v \<Rightarrow> v
         | None \<Rightarrow>
             (case partialMatch normalizedCity CITY_GEOGRAPHIC_DATA of
                Some data \<Rightarrow> GeoRecord data
              | None \<Rightarrow> GeoRecord (estimateGeographicData lat lon)))"

text \<open>
  What the five scoring functions read from the value they are given. An inherited value
  (the function \<^verbatim>\<open>Object\<close>, the prototype) has none of the ten fields, so each read
  is \<^verbatim>\<open>undefined\<close>: \<^verbatim>\<open>nearRiver\<close> and \<^verbatim>\<open>nearCoast\<close> are falsy, every
  comparison of a field with a string literal or with a number is false, and the
  \<^verbatim>\<open>switch\<close> on the seismic zone takes its default branch. The record of the second
  equation answers each test of the five functions in the same way: its terrain is none
  of flat, hilly, mountainous and delta, its vegetation none of urban, dense and
  moderate, its flood history neither frequent nor occasional, its seismic zone none of
  2 to 5 and below 4, its annual rainfall not above 1000, its elevation not above 1500.
  The two fields that are interpolated into a factor (\<^verbatim>\<open>riverDistance\<close>,
  \<^verbatim>\<open>elevation\<close>) are read only under tests that fail.
\<close>

fun asGeographicData :: "geoValue \<Rightarrow> CityGeographicData" where
  "asGeographicData (GeoRecord d) = d"
| "asGeographicData (InheritedValue key) =
     \<lparr>elevation = 100, terrain = Coastal, nearRiver = False, riverDistance = 100,
      nearCoast = False, coastDistance = 100, seismicZone = 1, annualRainfall = 0,
      vegetation = Sparse, floodHistory = NoFloods\<rparr>"

section \<open>The five scoring functions\<close>

text \<open>
  \<open>bump n f\<close> is the pair of statements \<^verbatim>\<open>riskScore += n; factors.push(f)\<close> on the
  running pair of the score and the factor list.
\<close>

type_synonym scoring = "real \<times> template list"

definition bump :: "real \<Rightarrow> template \<Rightarrow> scoring \<Rightarrow> scoring" where
  "bump n f st = (fst st + n, snd st @ [f])"

definition getRiskLevel :: "real \<Rightarrow> riskLevel" where
  "getRiskLevel p =
     (if p \<ge> 0.70 then Critical
      else if p \<ge> 0.45 then High
      else if p \<ge> 0.20 then Moderate
      else Low)"

definition getFloodRecommendations :: "real \<Rightarrow> string list" where
  "getFloodRecommendations risk =
     (if risk < 0.20 then
        [''Standard preparedness is sufficient'',
         ''Keep emergency contacts handy'',
         ''Monitor weather forecasts during monsoon'']
      else if risk < 0.45 then
        [''Monitor local weather updates'',
         ''Keep important documents elevated'',
         ''Know your evacuation routes'',
         ''Have emergency supplies ready'']
      else
        [''U+26A0 U+FE0F Prepare for potential flooding'',
         ''Move valuables to higher ground'',
         ''Stock emergency supplies and water'',
         ''Avoid low-lying areas'',
         ''Keep emergency evacuation bag ready''])"

definition getEarthquakeRecommendations :: "real \<Rightarrow> string list" where
  "getEarthquakeRecommendations risk =
     (let base =
        [''Secure heavy furniture to walls'',
         ''Identify safe spots (under sturdy tables)'',
         ''Keep emergency kit accessible'']
      in if risk \<ge> 0.25 then
           base @
           [''U+26A0 U+FE0F Area is in high seismic zone'',
            ''Practice drop, cover, and hold on'',
            ''Know how to turn off gas/electricity'']
         else base)"

definition getStormRecommendations :: "real \<Rightarrow> string list" where
  "getStormRecommendations risk =
     (if risk < 0.20 then
        [''No storm precautions needed currently'', ''Continue monitoring forecasts'']
      else if risk < 0.45 then
        [''Secure loose outdoor items'',
         ''Keep devices charged'',
         ''Stay updated on weather alerts'']
      else
        [''U+26A0 U+FE0F Storm conditions developing'',
         ''Stay indoors during storm'',
         ''Secure all outdoor objects'',
         ''Have flashlights and batteries ready'',
         ''Avoid windows and electrical equipment''])"

definition getFireRecommendations :: "real \<Rightarrow> string list" where
  "getFireRecommendations risk =
     (if risk < 0.15 then
        [''Urban area - standard fire safety applies'', ''Ensure smoke detectors work'']
      else
        [''Clear dry vegetation from property'',
         ''Have evacuation plan ready'',
         ''Keep important documents accessible'',
         ''Monitor air quality alerts''])"

definition getLandslideRecommendations :: "real \<Rightarrow> terrain \<Rightarrow> string list" where
  "getLandslideRecommendations risk terr =
     (if terr = Flat then
        [''Flat terrain - landslide risk negligible'', ''No special precautions needed'']
      else if risk < 0.20 then
        [''Low risk but monitor during heavy rain'',
         ''Avoid steep slopes in wet weather'']
      else
        [''U+26A0 U+FE0F Be alert in hilly/mountainous areas'',
         ''Avoid steep slopes during rain'',
         ''Watch for cracks in ground'',
         ''Be alert to unusual sounds (rumbling)'',
         ''Know evacuation routes away from slopes''])"

text \<open>
  \<^verbatim>\<open>calculateFloodRisk\<close>. The source reads the calendar month of the moment of the call,
  \<^verbatim>\<open>new Date().getMonth()\<close> (0 is January); it is the argument \<open>month\<close>.
\<close>

definition floodScoring :: "nat \<Rightarrow> CityGeographicData \<Rightarrow> WeatherData \<Rightarrow> scoring" where
  "floodScoring month geoData weather =
     (let st = (0::real, []);
          st = (if nearRiver geoData \<and> riverDistance geoData < 10 then
                  bump 25 [Txt ''Located '', Num (riverDistance geoData), Txt ''km from river''] st
                else if nearRiver geoData then bump 10 [Txt ''River in vicinity''] st
                else st);
          st = (if nearCoast geoData then bump 20 [Txt ''Coastal location - storm surge risk''] st
                else st);
          st = (if terrain geoData = Delta then bump 25 [Txt ''Low-lying delta region''] st
                else if terrain geoData = Flat \<and> elevation geoData < 50 then
                  bump 15 [Txt ''Low elevation flat terrain''] st
                else st);
          st = (if floodHistory geoData = Frequent then
                  bump 20 [Txt ''Area has frequent flooding history''] st
                else if floodHistory geoData = Occasional then
                  bump 10 [Txt ''Occasional flooding in region''] st
                else st);
          st = (if rainfall24h weather > 50 then
                  bump 30 [Txt ''Heavy rainfall: '', Fixed1 (rainfall24h weather), Txt ''mm''] st
                else if rainfall24h weather > 20 then
                  bump 15 [Txt ''Moderate rainfall: '', Fixed1 (rainfall24h weather), Txt ''mm''] st
                else if rainfall24h weather > 5 then bump 5 [Txt ''Light rainfall recorded''] st
                else st);
          st = (if humidity weather > 85 then
                  bump 10 [Txt ''High humidity: '', Num (humidity weather), Txt ''%''] st
                else st);
          st = (if month \<ge> 5 \<and> month \<le> 8 \<and> annualRainfall geoData > 1000 then
                  bump 15 [Txt ''Active monsoon season''] st
                else st)
      in st)"

definition calculateFloodRisk :: "nat \<Rightarrow> CityGeographicData \<Rightarrow> WeatherData \<Rightarrow> HazardRiskResult" where
  "calculateFloodRisk month geoData weather =
     (let (riskScore, factors) = floodScoring month geoData weather;
          probability = min (riskScore / 100) 0.95
      in if \<not> nearRiver geoData \<and> \<not> nearCoast geoData \<and> terrain geoData = Flat then
           (let cappedProbability = min probability 0.25
            in \<lparr>hazard_type = Flood,
                hazard_name = ''Flood'',
                icon = ''U+1F30A'',
                riskLevel = getRiskLevel cappedProbability,
                probability = cappedProbability,
                confidence = 0.85,
                factors = (if length factors > 0 then factors
                           else [[Txt ''No significant flood risk factors in area'']]),
                trend = (if rainfall24h weather > 10 then Increasing else Stable),
                timeframe = ''Next 24-48 hours'',
                recommendations = getFloodRecommendations cappedProbability,
                dataSource = ''Geographic analysis + Real-time weather''\<rparr>)
         else
           \<lparr>hazard_type = Flood,
            hazard_name = ''Flood'',
            icon = ''U+1F30A'',
            riskLevel = getRiskLevel probability,
            probability = probability,
            confidence = 0.85,
            factors = (if length factors > 0 then factors else [[Txt ''Low flood risk area'']]),
            trend = (if rainfall24h weather > 10 then Increasing else Stable),
            timeframe = ''Next 24-48 hours'',
            recommendations = getFloodRecommendations probability,
            dataSource = ''Geographic analysis + Real-time weather''\<rparr>)"

text \<open>\<^verbatim>\<open>calculateEarthquakeRisk\<close>: it takes the geographic data only.\<close>

definition earthquakeScoring :: "CityGeographicData \<Rightarrow> scoring" where
  "earthquakeScoring geoData =
     (let st = (0::real, []);
          st = (if seismicZone geoData = 5 then
                  (45, snd st @ [[Txt ''Located in Seismic Zone V (Very High Risk)'']]
                              @ [[Txt ''Himalayan fault line proximity'']])
                else if seismicZone geoData = 4 then
                  (25, snd st @ [[Txt ''Located in Seismic Zone IV (High Risk)'']])
                else if seismicZone geoData = 3 then
                  (15, snd st @ [[Txt ''Located in Seismic Zone III (Moderate Risk)'']])
                else if seismicZone geoData = 2 then
                  (8, snd st @ [[Txt ''Located in Seismic Zone II (Low Risk)'']])
                else
                  (5, snd st @ [[Txt ''Located in Seismic Zone I (Very Low Risk)'']]));
          st = (if terrain geoData = Mountainous then
                  bump 10 [Txt ''Mountainous terrain - higher seismic activity''] st
                else st)
      in st)"

definition calculateEarthquakeRisk :: "CityGeographicData \<Rightarrow> HazardRiskResult" where
  "calculateEarthquakeRisk geoData =
     (let (riskScore, factors) = earthquakeScoring geoData;
          probability = min (riskScore / 100) 0.60
      in \<lparr>hazard_type = Earthquake,
          hazard_name = ''Earthquake'',
          icon = ''U+1F3DA U+FE0F'',
          riskLevel = getRiskLevel probability,
          probability = probability,
          confidence = 0.55,
          factors = factors,
          trend = Stable,
          timeframe = ''Ongoing monitoring'',
          recommendations = getEarthquakeRecommendations probability,
          dataSource = ''Indian Seismic Zonation Map''\<rparr>)"

text \<open>\<^verbatim>\<open>calculateStormRisk\<close>.\<close>

definition stormScoring :: "CityGeographicData \<Rightarrow> WeatherData \<Rightarrow> scoring" where
  "stormScoring geoData weather =
     (let st = (0::real, []);
          st = (if windSpeed weather > 20 then
                  bump 40 [Txt ''High winds: '', Fixed1 (windSpeed weather), Txt '' m/s''] st
                else if windSpeed weather > 10 then
                  bump 20 [Txt ''Moderate winds: '', Fixed1 (windSpeed weather), Txt '' m/s''] st
                else if windSpeed weather > 5 then bump 5 [Txt ''Light winds''] st
                else st);
          st = (if pressure weather < 1000 then
                  bump 25 [Txt ''Low pressure system: '', Num (pressure weather), Txt '' hPa''] st
                else if pressure weather < 1010 then bump 10 [Txt ''Slightly low pressure''] st
                else st);
          st = (if clouds weather > 80 then bump 15 [Txt ''Heavy cloud cover''] st else st);
          st = (if nearCoast geoData then bump 15 [Txt ''Coastal exposure to cyclones''] st
                else st);
          st = (if str_includes (description weather) ''storm''
                   \<or> str_includes (description weather) ''thunder'' then
                  bump 30 [Txt ''Current conditions: '', Txt (description weather)] st
                else st)
      in st)"

definition calculateStormRisk :: "CityGeographicData \<Rightarrow> WeatherData \<Rightarrow> HazardRiskResult" where
  "calculateStormRisk geoData weather =
     (let (riskScore, factors) = stormScoring geoData weather;
          probability = min (riskScore / 100) 0.90
      in \<lparr>hazard_type = Storm,
          hazard_name = ''Severe Storm'',
          icon = ''U+26C8 U+FE0F'',
          riskLevel = getRiskLevel probability,
          probability = probability,
          confidence = 0.80,
          factors = (if length factors > 0 then factors else [[Txt ''Calm weather conditions'']]),
          trend = (if windSpeed weather > 10 \<or> pressure weather < 1005 then Increasing
                   else Stable),
          timeframe = ''Next 6-12 hours'',
          recommendations = getStormRecommendations probability,
          dataSource = ''Real-time meteorological data''\<rparr>)"

text \<open>
  \<^verbatim>\<open>calculateFireRisk\<close>. For an urban area the score is set to 5; after recent rain it
  is lowered by 20, and not below 0: \<^verbatim>\<open>Math.max(0, riskScore - 20)\<close>.
\<close>

definition fireScoring :: "CityGeographicData \<Rightarrow> WeatherData \<Rightarrow> scoring" where
  "fireScoring geoData weather =
     (let st = (0::real, []);
          st = (if vegetation geoData = Urban then
                  (5, snd st @ [[Txt ''Urban area - minimal wildfire risk'']])
                else
                  (let st = (if vegetation geoData = Dense then
                               bump 25 [Txt ''Dense vegetation cover''] st
                             else if vegetation geoData = ModerateVeg then
                               bump 15 [Txt ''Moderate vegetation''] st
                             else st);
                       st = (if humidity weather < 30 then
                               bump 30 [Txt ''Very low humidity: '', Num (humidity weather), Txt ''%''] st
                             else if humidity weather < 50 then
                               bump 15 [Txt ''Low humidity: '', Num (humidity weather), Txt ''%''] st
                             else st);
                       st = (if temperature weather > 40 then
                               bump 25 [Txt ''Extreme heat: '', Fixed1 (temperature weather),
                                        Txt ''U+00B0'', Txt ''C''] st
                             else if temperature weather > 35 then
                               bump 15 [Txt ''High temperature: '', Fixed1 (temperature weather),
                                        Txt ''U+00B0'', Txt ''C''] st
                             else st);
                       st = (if windSpeed weather > 15 then
                               bump 20 [Txt ''High winds can spread fire''] st
                             else st)
                   in st));
          st = (if rainfall24h weather > 5 then
                  (max 0 (fst st - 20), snd st @ [[Txt ''Recent rainfall reduces risk'']])
                else st)
      in st)"

definition calculateFireRisk :: "CityGeographicData \<Rightarrow> WeatherData \<Rightarrow> HazardRiskResult" where
  "calculateFireRisk geoData weather =
     (let (riskScore, factors) = fireScoring geoData weather;
          probability = min (riskScore / 100) 0.80
      in \<lparr>hazard_type = Fire,
          hazard_name = ''Wildfire'',
          icon = ''U+1F525'',
          riskLevel = getRiskLevel probability,
          probability = probability,
          confidence = 0.75,
          factors = factors,
          trend = (if humidity weather < 40 \<and> temperature weather > 35 then Increasing
                   else Stable),
          timeframe = ''Seasonal assessment'',
          recommendations = getFireRecommendations probability,
          dataSource = ''Weather data + Vegetation analysis''\<rparr>)"

text \<open>\<^verbatim>\<open>calculateLandslideRisk\<close>. On flat terrain the score is set to 2.\<close>

definition landslideScoring :: "CityGeographicData \<Rightarrow> WeatherData \<Rightarrow> scoring" where
  "landslideScoring geoData weather =
     (let st = (0::real, []);
          st = (if terrain geoData = Mountainous then
                  bump 35 [Txt ''Mountainous terrain - high landslide risk''] st
                else if terrain geoData = Hilly then
                  bump 20 [Txt ''Hilly terrain - moderate slope risk''] st
                else if terrain geoData = Flat then
                  (2, snd st @ [[Txt ''Flat terrain - minimal landslide risk'']])
                else st);
          st = (if terrain geoData \<noteq> Flat then
                  (let st = (if rainfall24h weather > 50 then
                               bump 35 [Txt ''Heavy rainfall saturating slopes: '',
                                        Fixed1 (rainfall24h weather), Txt ''mm''] st
                             else if rainfall24h weather > 20 then
                               bump 20 [Txt ''Moderate rainfall affecting soil stability''] st
                             else st);
                       st = (if seismicZone geoData \<ge> 4 then
                               bump 15 [Txt ''High seismic activity can trigger slides''] st
                             else st);
                       st = (if elevation geoData > 1500 then
                               bump 10 [Txt ''High elevation: '', Num (elevation geoData), Txt ''m''] st
                             else st)
                   in st)
                else st)
      in st)"

definition calculateLandslideRisk :: "CityGeographicData \<Rightarrow> WeatherData \<Rightarrow> HazardRiskResult" where
  "calculateLandslideRisk geoData weather =
     (let (riskScore, factors) = landslideScoring geoData weather;
          probability = min (riskScore / 100) 0.85
      in \<lparr>hazard_type = Landslide,
          hazard_name = ''Landslide'',
          icon = ''U+1F3D4 U+FE0F'',
          riskLevel = getRiskLevel probability,
          probability = probability,
          confidence = (if terrain geoData = Flat then 0.95 else 0.70),
          factors = factors,
          trend = (if rainfall24h weather > 30 \<and> terrain geoData \<noteq> Flat then Increasing
                   else Stable),
          timeframe = ''Next 72 hours'',
          recommendations = getLandslideRecommendations probability (terrain geoData),
          dataSource = ''Topographic analysis + Weather data''\<rparr>)"

section \<open>Numbers: rounding, formatting, the arc tangent of a quotient\<close>

text \<open>
  \<^verbatim>\<open>Math.round\<close> rounds to the nearest integer, a tie towards \<open>+\<infinity>\<close>.
  \<^verbatim>\<open>Number.prototype.toFixed(d)\<close> writes a minus sign for a number below zero and then
  the digits of the integer nearest to \<open>\<bar>x\<bar> * 10 ^ d\<close> (the larger one at a tie); the
  model keeps the sign and that integer, which determine the string.
  \<^verbatim>\<open>Math.atan2(y, x)\<close> is the angle of the point \<open>(x, y)\<close>, by the cases of ECMAScript.
\<close>

definition jsRound :: "real \<Rightarrow> real" where
  "jsRound x = of_int \<lfloor>x + 1 / 2\<rfloor>"

type_synonym fixed = "bool \<times> int"

definition toFixed :: "nat \<Rightarrow> real \<Rightarrow> fixed" where
  "toFixed d x = (x < 0, \<lfloor>\<bar>x\<bar> * 10 ^ d + 1 / 2\<rfloor>)"

definition atan2 :: "real \<Rightarrow> real \<Rightarrow> real" where
  "atan2 y x =
     (if x > 0 then arctan (y / x)
      else if x < 0 \<and> y \<ge> 0 then arctan (y / x) + pi
      else if x < 0 \<and> y < 0 then arctan (y / x) - pi
      else if y > 0 then pi / 2
      else if y < 0 then - (pi / 2)
      else 0)"

section \<open>The Haversine distance\<close>

text \<open>
  \<^verbatim>\<open>DisasterDataService.calculateDistance\<close>, in kilometres, as a function of real numbers.
  The source computes in IEEE doubles and does not clamp \<^verbatim>\<open>a\<close>. In exact arithmetic
  \<^verbatim>\<open>a\<close> lies between 0 and 1 and is 1 at antipodal points; in doubles the computed
  \<^verbatim>\<open>a\<close> can come out as 1.0000000000000002 there, as it does for the points (-12, -180)
  and (12, 0), and then \<^verbatim>\<open>Math.sqrt(1 - a)\<close> and the value returned are \<^verbatim>\<open>NaN\<close>. The
  definitions below, and every statement about them, are about the formula in exact
  arithmetic and say nothing about those inputs.
\<close>

definition calculateDistance :: "real \<Rightarrow> real \<Rightarrow> real \<Rightarrow> real \<Rightarrow> real" where
  "calculateDistance lat1 lon1 lat2 lon2 =
     (let R = 6371;
          dLat = (lat2 - lat1) * pi / 180;
          dLon = (lon2 - lon1) * pi / 180;
          a = sin (dLat / 2) * sin (dLat / 2) +
              cos (lat1 * pi / 180) * cos (lat2 * pi / 180) *
              sin (dLon / 2) * sin (dLon / 2);
          c = 2 * atan2 (sqrt a) (sqrt (1 - a))
      in R * c)"

text \<open>
  \<^verbatim>\<open>calculateDistance\<close> of \<^verbatim>\<open>shelterService.ts\<close>: the same formula, rounded to one
  decimal place.
\<close>

definition shelterDistance :: "real \<Rightarrow> real \<Rightarrow> real \<Rightarrow> real \<Rightarrow> real" where
  "shelterDistance lat1 lng1 lat2 lng2 =
     (let R = 6371;
          dLat = (lat2 - lat1) * pi / 180;
          dLng = (lng2 - lng1) * pi / 180;
          a = sin (dLat / 2) * sin (dLat / 2) +
              cos (lat1 * pi / 180) * cos (lat2 * pi / 180) *
              sin (dLng / 2) * sin (dLng / 2);
          c = 2 * atan2 (sqrt a) (sqrt (1 - a))
      in jsRound (R * c * 10) / 10)"

section \<open>Data model of the disaster data service\<close>

record USGSEarthquake =
  eq_id :: string
  magnitude :: real
  place :: string
  eq_time :: real
  eq_coordinates :: "real \<times> real \<times> real"
  tsunami :: bool
  alert :: "string option"
  significance :: real

record geometryEntry =
  geo_date :: string
  geo_type :: string
  geo_coordinates :: "real \<times> real"

record NASAEvent =
  ev_id :: string
  title :: string
  ev_description :: string
  category :: string
  geometry :: "geometryEntry list"
  ev_sources :: "(string \<times> string) list"

datatype intensity = IntensityLow | IntensityModerate | IntensityHigh | IntensityExtreme

record FIRMSFire =
  latitude :: real
  longitude :: real
  brightness :: real
  frp :: real
  fire_confidence :: string
  intensity :: intensity
  distance_km :: "real option"
  acq_date :: "string option"
  acq_time :: "string option"
  fire_source :: string

datatype alertLevel = Green | Orange | Red

record GDACSAlert =
  eventId :: string
  eventType :: string
  alertLevel :: alertLevel
  alert_title :: string
  alert_description :: string
  pubDate :: string
  link :: string
  alert_coordinates :: "real \<times> real"

datatype imdSeverity = ImdYellow | ImdOrange | ImdRed

record IMDWarning =
  warn_type :: string
  warn_severity :: imdSeverity
  message :: string
  instructions :: "string list"
  valid_from :: string
  valid_until :: string

text \<open>
  An entry of \<^verbatim>\<open>nearbyThreats\<close>. Its severity has the four values of a risk level.
  The coordinates of an earthquake are longitude, latitude, depth; those of a geometry
  entry longitude, latitude; those of an alert latitude, longitude.
\<close>

record nearbyThreat =
  threat_type :: string
  threat_distance :: real
  severity :: riskLevel
  threat_source :: string
  threat_description :: template

section \<open>Nearby threats\<close>

definition intensityText :: "intensity \<Rightarrow> string" where
  "intensityText i =
     (case i of IntensityLow \<Rightarrow> ''low'' | IntensityModerate \<Rightarrow> ''moderate''
      | IntensityHigh \<Rightarrow> ''high'' | IntensityExtreme \<Rightarrow> ''extreme'')"

text \<open>The body of each of the five loops: the threat it pushes for one item, if any.\<close>

definition earthquakeThreat :: "real \<Rightarrow> real \<Rightarrow> USGSEarthquake \<Rightarrow> nearbyThreat option" where
  "earthquakeThreat lat lon eq =
     (let distance = calculateDistance lat lon (fst (snd (eq_coordinates eq))) (fst (eq_coordinates eq))
      in if distance < 500 then
           (let severity = (if magnitude eq \<ge> 6 then Critical
                            else if magnitude eq \<ge> 5 then High
                            else if magnitude eq \<ge> 4 then Moderate
                            else Low)
            in Some \<lparr>threat_type = ''Earthquake'',
                     threat_distance = jsRound distance,
                     severity = severity,
                     threat_source = ''USGS'',
                     threat_description = [Txt ''M'', Fixed1 (magnitude eq), Txt '' - '', Txt (place eq)]\<rparr>)
         else None)"

definition nasaThreat :: "real \<Rightarrow> real \<Rightarrow> NASAEvent \<Rightarrow> nearbyThreat option" where
  "nasaThreat lat lon event =
     (case geometry event of
        [] \<Rightarrow> None
      | g # _ \<Rightarrow>
          (let coords = geo_coordinates g;
               distance = calculateDistance lat lon (snd coords) (fst coords)
           in if distance < 1000 then
                (let severity = (if distance < 100 then Critical
                                 else if distance < 300 then High
                                 else Moderate)
                 in Some \<lparr>threat_type = category event,
                          threat_distance = jsRound distance,
                          severity = severity,
                          threat_source = ''NASA EONET'',
                          threat_description = [Txt (title event)]\<rparr>)
              else None))"

text \<open>
  The guard \<^verbatim>\<open>fire.distance_km && fire.distance_km < 200\<close> fails on \<^verbatim>\<open>null\<close> and on 0.
\<close>

definition fireThreat :: "FIRMSFire \<Rightarrow> nearbyThreat option" where
  "fireThreat fire =
     (case distance_km fire of
        None \<Rightarrow> None
      | Some d \<Rightarrow>
          if d \<noteq> 0 \<and> d < 200 then
            (let severity = (if intensity fire = IntensityExtreme \<or> d < 20 then Critical
                             else if intensity fire = IntensityHigh \<or> d < 50 then High
                             else if intensity fire = IntensityLow then Low
                             else Moderate)
             in Some \<lparr>threat_type = ''Active Fire'',
                      threat_distance = jsRound d,
                      severity = severity,
                      threat_source = ''NASA FIRMS'',
                      threat_description =
                        [Txt ''Fire hotspot ('', Txt (intensityText (intensity fire)),
                         Txt '' intensity, FRP: '', Num (frp fire), Txt '')'']\<rparr>)
          else None)"

definition imdThreat :: "IMDWarning \<Rightarrow> nearbyThreat" where
  "imdThreat warning =
     (let severity = (if warn_severity warning = ImdRed then Critical
                      else if warn_severity warning = ImdOrange then High
                      else Moderate)
      in \<lparr>threat_type = warn_type warning,
          threat_distance = 0,
          severity = severity,
          threat_source = ''IMD'',
          threat_description = [Txt (message warning)]\<rparr>)"

definition gdacsThreat :: "real \<Rightarrow> real \<Rightarrow> GDACSAlert \<Rightarrow> nearbyThreat option" where
  "gdacsThreat lat lon al =
     (if fst (alert_coordinates al) \<noteq> 0 \<and> snd (alert_coordinates al) \<noteq> 0 then
        (let distance = calculateDistance lat lon (fst (alert_coordinates al)) (snd (alert_coordinates al))
         in if distance < 1000 then
              (let severity = (if alertLevel al = Red then Critical
                               else if alertLevel al = Orange then High
                               else Moderate)
               in Some \<lparr>threat_type = eventType al,
                        threat_distance = jsRound distance,
                        severity = severity,
                        threat_source = ''GDACS'',
                        threat_description = [Txt (alert_title al)]\<rparr>)
            else None)
      else None)"

text \<open>
  \<^verbatim>\<open>calculateNearbyThreats\<close>: the five loops push in this order; then
  \<^verbatim>\<open>threats.sort((a, b) => a.distance - b.distance).slice(0, 10)\<close>. The sort of an array
  is stable, as \<open>sort_key\<close> is.
\<close>

definition calculateNearbyThreats ::
  "real \<Rightarrow> real \<Rightarrow> USGSEarthquake list \<Rightarrow> NASAEvent list \<Rightarrow> GDACSAlert list \<Rightarrow> FIRMSFire list
    \<Rightarrow> IMDWarning list \<Rightarrow> nearbyThreat list" where
  "calculateNearbyThreats lat lon earthquakes nasaEvents gdacsAlerts activeFires imdWarnings =
     (let threats = [];
          threats = threats @ List.map_filter (earthquakeThreat lat lon) earthquakes;
          threats = threats @ List.map_filter (nasaThreat lat lon) nasaEvents;
          threats = threats @ List.map_filter fireThreat activeFires;
          threats = threats @ map imdThreat imdWarnings;
          threats = threats @ List.map_filter (gdacsThreat lat lon) gdacsAlerts
      in take 10 (sort_key threat_distance threats))"

section \<open>The clock, the network and the caches\<close>

text \<open>
  A cache is the \<^verbatim>\<open>Map\<close> from a request key to \<^verbatim>\<open>{data, timestamp}\<close>; a timestamp is a
  value of \<^verbatim>\<open>Date.now()\<close>, in milliseconds. The source has no call of \<^verbatim>\<open>delete\<close> or
  \<^verbatim>\<open>clear\<close> on any of its caches.

  A key of the source is a string built from \<^verbatim>\<open>toFixed\<close> of the coordinates; the model
  keeps the tuple of what is interpolated, which determines the string.

  \<open>'a fetched\<close> is what one call of \<^verbatim>\<open>fetch\<close> and the reading of its body come to:
  the promise rejects (a network failure, or the abort by \<^verbatim>\<open>AbortSignal.timeout\<close>), or a
  response arrives, with its \<^verbatim>\<open>ok\<close> flag and its body. The body is \<open>None\<close> when
  \<^verbatim>\<open>response.json()\<close> rejects, or when the value has not the structure the code
  dereferences, which is a \<^verbatim>\<open>TypeError\<close> inside the \<^verbatim>\<open>try\<close> block.

  A function that may send requests returns the list of those it has sent.
\<close>

record 'a cacheEntry =
  data :: 'a
  timestamp :: int

type_synonym ('k, 'a) cache = "'k \<rightharpoonup> 'a cacheEntry"

datatype 'a fetched = NetworkFailure | Timeout | HttpResponse bool "'a option"

datatype request =
    WeatherRequest real real
  | NasaEonetRequest
  | GdacsRequest
  | FirmsRequest real real
  | ImdRequest real real
  | UsgsRequest real real real
  | PlacesRequest real real real string string
  | OverpassRequest real real real
  | FloodPredictPost real real "string option" "string option" "string option"
  | FloodPredictGet real real "string option" "string option"
  | AnomalyDetectGet real real real
  | AlertUsgsRequest real real real
  | AlertEonetRequest
  | OpenWeatherMapRequest real real
  | OpenMeteoRequest real real

section \<open>The weather of the location hazard service\<close>

text \<open>
  The fields of the OpenWeatherMap answer that \<^verbatim>\<open>getWeatherData\<close> reads, each absent or
  present: \<^verbatim>\<open>data.main?.temp\<close>, \<^verbatim>\<open>data.main?.humidity\<close>, \<^verbatim>\<open>data.wind?.speed\<close>,
  \<^verbatim>\<open>data.rain?.['1h']\<close>, \<^verbatim>\<open>data.rain?.['3h']\<close>, \<^verbatim>\<open>data.main?.pressure\<close>,
  \<^verbatim>\<open>data.weather?.[0]?.description\<close>, \<^verbatim>\<open>data.clouds?.all\<close>.
\<close>

record owmBody =
  main_temp :: "real option"
  main_humidity :: "real option"
  wind_speed :: "real option"
  rain_1h :: "real option"
  rain_3h :: "real option"
  main_pressure :: "real option"
  weather0_description :: "string option"
  clouds_all :: "real option"

text \<open>The operator \<^verbatim>\<open>??\<close>.\<close>

definition orDefault :: "'a option \<Rightarrow> 'a \<Rightarrow> 'a" where
  "orDefault v d = (case v of Some x \<Rightarrow> x | None \<Rightarrow> d)"

definition WEATHER_CACHE_DURATION :: int where
  "WEATHER_CACHE_DURATION = 1000 * 60 * 10"

definition defaultWeather :: WeatherData where
  "defaultWeather =
     \<lparr>temperature = 25, humidity = 50, windSpeed = 5, rainfall24h = 0, pressure = 1013,
      description = ''clear'', clouds = 20\<rparr>"

text \<open>
  \<^verbatim>\<open>getWeatherData\<close>. \<open>now\<close> is the clock at the lookup, \<open>now'\<close> the clock when the
  answer is stored, \<open>answer\<close> what the request comes to if it is sent.
\<close>

definition getWeatherData ::
  "(fixed \<times> fixed, WeatherData) cache \<Rightarrow> int \<Rightarrow> int \<Rightarrow> owmBody fetched \<Rightarrow> real \<Rightarrow> real
    \<Rightarrow> WeatherData \<times> (fixed \<times> fixed, WeatherData) cache \<times> request list" where
  "getWeatherData weatherCache now now' answer lat lon =
     (let cacheKey = (toFixed 2 lat, toFixed 2 lon);
          cached = weatherCache cacheKey;
          fetching =
            (case answer of
               HttpResponse True (Some body) \<Rightarrow>
                 (let weatherData =
                        \<lparr>temperature = orDefault (main_temp body) 25,
                         humidity = orDefault (main_humidity body) 50,
                         windSpeed = orDefault (wind_speed body) 0,
                         rainfall24h = orDefault (rain_1h body) (orDefault (rain_3h body) 0),
                         pressure = orDefault (main_pressure body) 1013,
                         description = orDefault (weather0_description body) ''clear'',
                         clouds = orDefault (clouds_all body) 0\<rparr>
                  in (weatherData,
                      weatherCache(cacheKey \<mapsto> \<lparr>data = weatherData, timestamp = now'\<rparr>),
                      [WeatherRequest lat lon]))
             | _ \<Rightarrow> (defaultWeather, weatherCache, [WeatherRequest lat lon]))
      in case cached of
           Some entry \<Rightarrow>
             if now - timestamp entry < WEATHER_CACHE_DURATION then (data entry, weatherCache, [])
             else fetching
         | None \<Rightarrow> fetching)"

text \<open>
  \<^verbatim>\<open>getHazardPredictions\<close>. Besides its three arguments it reads the month (through
  \<^verbatim>\<open>calculateFloodRisk\<close>) and what \<^verbatim>\<open>getWeatherData\<close> reads.
\<close>

definition getHazardPredictions ::
  "nat \<Rightarrow> (fixed \<times> fixed, WeatherData) cache \<Rightarrow> int \<Rightarrow> int \<Rightarrow> owmBody fetched
    \<Rightarrow> string \<Rightarrow> real \<Rightarrow> real
    \<Rightarrow> HazardRiskResult list \<times> (fixed \<times> fixed, WeatherData) cache \<times> request list" where
  "getHazardPredictions month weatherCache now now' answer cityName lat lon =
     (let geoData = asGeographicData (getGeographicData cityName lat lon);
          (weather, weatherCache', requests) = getWeatherData weatherCache now now' answer lat lon
      in ([calculateFloodRisk month geoData weather,
           calculateEarthquakeRisk geoData,
           calculateStormRisk geoData weather,
           calculateFireRisk geoData weather,
           calculateLandslideRisk geoData weather],
          weatherCache', requests))"

section \<open>The fetchers of the disaster data service\<close>

text \<open>
  The one \<^verbatim>\<open>Map\<close> of \<^verbatim>\<open>DisasterDataService\<close> holds five families of keys, told apart by
  their prefixes (\<^verbatim>\<open>nasa_eonet\<close>, \<^verbatim>\<open>gdacs_alerts\<close>, \<^verbatim>\<open>firms_\<close>, \<^verbatim>\<open>imd_\<close>, \<^verbatim>\<open>usgs_\<close>),
  each with its own type of data. The model keeps one typed map for each family.
\<close>

definition CACHE_DURATION :: int where
  "CACHE_DURATION = 5 * 60 * 1000"

definition getFromCache :: "('k, 'a) cache \<Rightarrow> int \<Rightarrow> 'k \<Rightarrow> 'a option" where
  "getFromCache cache now key =
     (case cache key of
        Some cached \<Rightarrow> if now - timestamp cached < CACHE_DURATION then Some (data cached) else None
      | None \<Rightarrow> None)"

definition setCache :: "('k, 'a) cache \<Rightarrow> int \<Rightarrow> 'k \<Rightarrow> 'a \<Rightarrow> ('k, 'a) cache" where
  "setCache cache now key d = cache(key \<mapsto> \<lparr>data = d, timestamp = now\<rparr>)"

record disasterCache =
  nasa_entries :: "(unit, NASAEvent list) cache"
  gdacs_entries :: "(unit, GDACSAlert list) cache"
  firms_entries :: "(fixed \<times> fixed, FIRMSFire list) cache"
  imd_entries :: "(fixed \<times> fixed, IMDWarning list) cache"
  usgs_entries :: "(fixed \<times> fixed, USGSEarthquake list) cache"

text \<open>
  One call of a fetcher: the clock when it looks the cache up, the clock when its answer
  has arrived (the time of \<^verbatim>\<open>setCache\<close>), and the answer.
\<close>

record 'a call =
  started :: int
  answered :: int
  answer :: "'a fetched"

text \<open>An event as EONET sends it, and the body of the backend proxy's answers.\<close>

record eonetEvent =
  raw_id :: string
  raw_title :: string
  raw_description :: "string option"
  raw_categories :: "string option list"
  raw_geometry :: "geometryEntry list"
  raw_sources :: "(string \<times> string) list"

record 'a proxyBody =
  success :: bool
  listing :: "'a list option"

record usgsFeature =
  f_id :: string
  f_mag :: real
  f_place :: string
  f_time :: real
  f_coordinates :: "real \<times> real \<times> real"
  f_tsunami :: real
  f_alert :: "string option"
  f_sig :: real

text \<open>
  Each fetcher returns its list, the cache after it, the requests it has sent and the
  time at which its promise settles.
\<close>

definition toNASAEvent :: "eonetEvent \<Rightarrow> NASAEvent" where
  "toNASAEvent event =
     \<lparr>ev_id = raw_id event,
      title = raw_title event,
      ev_description =
        (case raw_description event of
           Some d \<Rightarrow> if d \<noteq> [] then d else raw_title event
         | None \<Rightarrow> raw_title event),
      category =
        (case raw_categories event of
           Some t # _ \<Rightarrow> if t \<noteq> [] then t else ''Unknown''
         | _ \<Rightarrow> ''Unknown''),
      geometry = raw_geometry event,
      ev_sources = raw_sources event\<rparr>"

definition fetchNASAEvents ::
  "(unit, NASAEvent list) cache \<Rightarrow> eonetEvent list call
    \<Rightarrow> NASAEvent list \<times> (unit, NASAEvent list) cache \<times> request list \<times> int" where
  "fetchNASAEvents cache c =
     (let cacheKey = ()
      in case getFromCache cache (started c) cacheKey of
           Some cached \<Rightarrow> (cached, cache, [], started c)
         | None \<Rightarrow>
             (case answer c of
                HttpResponse True (Some body) \<Rightarrow>
                  (let events = map toNASAEvent body
                   in (events, setCache cache (answered c) cacheKey events,
                       [NasaEonetRequest], answered c))
              | _ \<Rightarrow> ([], cache, [NasaEonetRequest], answered c)))"

definition fetchGDACSAlerts ::
  "(unit, GDACSAlert list) cache \<Rightarrow> GDACSAlert proxyBody call
    \<Rightarrow> GDACSAlert list \<times> (unit, GDACSAlert list) cache \<times> request list \<times> int" where
  "fetchGDACSAlerts cache c =
     (let cacheKey = ()
      in case getFromCache cache (started c) cacheKey of
           Some cached \<Rightarrow> (cached, cache, [], started c)
         | None \<Rightarrow>
             (case answer c of
                HttpResponse True (Some body) \<Rightarrow>
                  (case listing body of
                     Some alerts \<Rightarrow>
                       if success body then
                         (alerts, setCache cache (answered c) cacheKey alerts,
                          [GdacsRequest], answered c)
                       else ([], cache, [GdacsRequest], answered c)
                   | None \<Rightarrow> ([], cache, [GdacsRequest], answered c))
              | _ \<Rightarrow> ([], cache, [GdacsRequest], answered c)))"

definition fetchNASAFIRMS ::
  "(fixed \<times> fixed, FIRMSFire list) cache \<Rightarrow> FIRMSFire proxyBody call \<Rightarrow> real \<Rightarrow> real
    \<Rightarrow> FIRMSFire list \<times> (fixed \<times> fixed, FIRMSFire list) cache \<times> request list \<times> int" where
  "fetchNASAFIRMS cache c lat lon =
     (let cacheKey = (toFixed 1 lat, toFixed 1 lon)
      in case getFromCache cache (started c) cacheKey of
           Some cached \<Rightarrow> (cached, cache, [], started c)
         | None \<Rightarrow>
             (case answer c of
                HttpResponse True (Some body) \<Rightarrow>
                  (case listing body of
                     Some fires \<Rightarrow>
                       if success body then
                         (fires, setCache cache (answered c) cacheKey fires,
                          [FirmsRequest lat lon], answered c)
                       else ([], cache, [FirmsRequest lat lon], answered c)
                   | None \<Rightarrow> ([], cache, [FirmsRequest lat lon], answered c))
              | _ \<Rightarrow> ([], cache, [FirmsRequest lat lon], answered c)))"

definition fetchIMDWarnings ::
  "(fixed \<times> fixed, IMDWarning list) cache \<Rightarrow> IMDWarning proxyBody call \<Rightarrow> real \<Rightarrow> real
    \<Rightarrow> IMDWarning list \<times> (fixed \<times> fixed, IMDWarning list) cache \<times> request list \<times> int" where
  "fetchIMDWarnings cache c lat lon =
     (let cacheKey = (toFixed 2 lat, toFixed 2 lon)
      in case getFromCache cache (started c) cacheKey of
           Some cached \<Rightarrow> (cached, cache, [], started c)
         | None \<Rightarrow>
             (case answer c of
                HttpResponse True (Some body) \<Rightarrow>
                  (case listing body of
                     Some warnings \<Rightarrow>
                       if success body then
                         (warnings, setCache cache (answered c) cacheKey warnings,
                          [ImdRequest lat lon], answered c)
                       else ([], cache, [ImdRequest lat lon], answered c)
                   | None \<Rightarrow> ([], cache, [ImdRequest lat lon], answered c))
              | _ \<Rightarrow> ([], cache, [ImdRequest lat lon], answered c)))"

definition toUSGSEarthquake :: "usgsFeature \<Rightarrow> USGSEarthquake" where
  "toUSGSEarthquake f =
     \<lparr>eq_id = f_id f,
      magnitude = f_mag f,
      place = f_place f,
      eq_time = f_time f,
      eq_coordinates = f_coordinates f,
      tsunami = (f_tsunami f = 1),
      alert = f_alert f,
      significance = f_sig f\<rparr>"

definition fetchUSGSEarthquakes ::
  "(fixed \<times> fixed, USGSEarthquake list) cache \<Rightarrow> usgsFeature list call \<Rightarrow> real \<Rightarrow> real \<Rightarrow> real
    \<Rightarrow> USGSEarthquake list \<times> (fixed \<times> fixed, USGSEarthquake list) cache \<times> request list \<times> int" where
  "fetchUSGSEarthquakes cache c lat lon radiusKm =
     (let cacheKey = (toFixed 2 lat, toFixed 2 lon)
      in case getFromCache cache (started c) cacheKey of
           Some cached \<Rightarrow> (cached, cache, [], started c)
         | None \<Rightarrow>
             (case answer c of
                HttpResponse True (Some body) \<Rightarrow>
                  (let earthquakes = map toUSGSEarthquake body
                   in (earthquakes, setCache cache (answered c) cacheKey earthquakes,
                       [UsgsRequest lat lon radiusKm], answered c))
              | _ \<Rightarrow> ([], cache, [UsgsRequest lat lon radiusKm], answered c)))"

section \<open>The aggregated disaster data\<close>

datatype sourceStatus = StatusActive | StatusError | StatusLoading

record DataSource =
  ds_name :: string
  ds_status :: sourceStatus
  ds_lastUpdated :: "int option"
  ds_confidence :: real
  dataCount :: nat

record disasterEvents =
  earthquakes :: "USGSEarthquake list"
  wildfires :: "NASAEvent list"
  activeFires :: "FIRMSFire list"
  storms :: "NASAEvent list"
  floods :: "NASAEvent list"
  volcanoes :: "NASAEvent list"
  gdacsAlerts :: "GDACSAlert list"
  imdWarnings :: "IMDWarning list"

record AggregatedDisasterData =
  sources :: "DataSource list"
  events :: disasterEvents
  nearbyThreats :: "nearbyThreat list"
  overallConfidence :: real
  lastUpdated :: int

text \<open>
  What \<^verbatim>\<open>getAggregatedData\<close> reads: the five calls, the clock after \<^verbatim>\<open>Promise.all\<close>
  (for the entry of OpenWeatherMap) and the clock at the return.
\<close>

record aggregateCalls =
  nasaCall :: "eonetEvent list call"
  gdacsCall :: "GDACSAlert proxyBody call"
  usgsCall :: "usgsFeature list call"
  firmsCall :: "FIRMSFire proxyBody call"
  imdCall :: "IMDWarning proxyBody call"
  merged :: int
  returned :: int

text \<open>
  \<^verbatim>\<open>getAggregatedData\<close>. The five fetchers are started in the order of the source and
  work on five disjoint families of keys. Each \<^verbatim>\<open>then\<close> callback pushes its entry of
  \<^verbatim>\<open>sources\<close> when its fetcher settles, so the five entries stand in the order of
  settling; the entry of OpenWeatherMap is pushed after all of them. The clock of the
  model does not separate two fetchers that settle at the same reading: the model puts
  them in the order of the calls, the source in the order in which their promises
  resolve. Only the set of the entries is used below, never their order.
\<close>

definition getAggregatedData ::
  "disasterCache \<Rightarrow> aggregateCalls \<Rightarrow> real \<Rightarrow> real
    \<Rightarrow> AggregatedDisasterData \<times> disasterCache \<times> request list" where
  "getAggregatedData cache calls lat lon =
     (let (nasaEvents, nasaCache, nasaRequests, nasaSettled) =
            fetchNASAEvents (nasa_entries cache) (nasaCall calls);
          (gdacsAlerts, gdacsCache, gdacsRequests, gdacsSettled) =
            fetchGDACSAlerts (gdacs_entries cache) (gdacsCall calls);
          (earthquakes, usgsCache, usgsRequests, usgsSettled) =
            fetchUSGSEarthquakes (usgs_entries cache) (usgsCall calls) lat lon 1000;
          (activeFires, firmsCache, firmsRequests, firmsSettled) =
            fetchNASAFIRMS (firms_entries cache) (firmsCall calls) lat lon;
          (imdWarnings, imdCache, imdRequests, imdSettled) =
            fetchIMDWarnings (imd_entries cache) (imdCall calls) lat lon;
          pushes =
            [(nasaSettled,
              \<lparr>ds_name = ''NASA EONET'',
               ds_status = (if length nasaEvents \<ge> 0 then StatusActive else StatusError),
               ds_lastUpdated = Some nasaSettled,
               ds_confidence = (if length nasaEvents > 0 then 95 else 50),
               dataCount = length nasaEvents\<rparr>),
             (gdacsSettled,
              \<lparr>ds_name = ''GDACS'',
               ds_status = (if length gdacsAlerts \<ge> 0 then StatusActive else StatusError),
               ds_lastUpdated = Some gdacsSettled,
               ds_confidence = (if length gdacsAlerts > 0 then 92 else 60),
               dataCount = length gdacsAlerts\<rparr>),
             (usgsSettled,
              \<lparr>ds_name = ''USGS Earthquake'',
               ds_status = (if length earthquakes \<ge> 0 then StatusActive else StatusError),
               ds_lastUpdated = Some usgsSettled,
               ds_confidence = 98,
               dataCount = length earthquakes\<rparr>),
             (firmsSettled,
              \<lparr>ds_name = ''NASA FIRMS'',
               ds_status = (if length activeFires \<ge> 0 then StatusActive else StatusError),
               ds_lastUpdated = Some firmsSettled,
               ds_confidence = (if length activeFires > 0 then 94 else 70),
               dataCount = length activeFires\<rparr>),
             (imdSettled,
              \<lparr>ds_name = ''IMD Warnings'',
               ds_status = StatusActive,
               ds_lastUpdated = Some imdSettled,
               ds_confidence = (if length imdWarnings > 0 then 88 else 75),
               dataCount = length imdWarnings\<rparr>)];
          sources = map snd (sort_key fst pushes);
          sources = sources @
            [\<lparr>ds_name = ''OpenWeatherMap'',
              ds_status = StatusActive,
              ds_lastUpdated = Some (merged calls),
              ds_confidence = 85,
              dataCount = 1\<rparr>];
          wildfires = filter (\<lambda>e. str_includes (toLowerCase (category e)) ''wildfire''
                                  \<or> str_includes (toLowerCase (category e)) ''fire'') nasaEvents;
          storms = filter (\<lambda>e. str_includes (toLowerCase (category e)) ''storm''
                               \<or> str_includes (toLowerCase (category e)) ''cyclone'') nasaEvents;
          floods = filter (\<lambda>e. str_includes (toLowerCase (category e)) ''flood'') nasaEvents;
          volcanoes = filter (\<lambda>e. str_includes (toLowerCase (category e)) ''volcano'') nasaEvents;
          nearbyThreats =
            calculateNearbyThreats lat lon earthquakes nasaEvents gdacsAlerts activeFires imdWarnings;
          overallConfidence = sum_list (map ds_confidence sources) / real (length sources)
      in (\<lparr>sources = sources,
           events = \<lparr>earthquakes = earthquakes,
                     wildfires = wildfires,
                     activeFires = activeFires,
                     storms = storms,
                     floods = floods,
                     volcanoes = volcanoes,
                     gdacsAlerts = gdacsAlerts,
                     imdWarnings = imdWarnings\<rparr>,
           nearbyThreats = nearbyThreats,
           overallConfidence = overallConfidence,
           lastUpdated = returned calls\<rparr>,
          \<lparr>nasa_entries = nasaCache,
           gdacs_entries = gdacsCache,
           firms_entries = firmsCache,
           imd_entries = imdCache,
           usgs_entries = usgsCache\<rparr>,
          nasaRequests @ gdacsRequests @ usgsRequests @ firmsRequests @ imdRequests))"

section \<open>The shelter service\<close>

datatype shelterType = Shelter | Hospital | FireStation | Police | School | CommunityCenter

text \<open>
  The identifier and the name of a shelter found on OpenStreetMap are template literals
  (\<^verbatim>\<open>osm-${el.id}\<close>, and a name with the index of the element).
\<close>

record RealShelter =
  sh_id :: template
  sh_name :: template
  address :: string
  sh_lat :: real
  sh_lng :: real
  sh_type :: shelterType
  phone :: "string option"
  rating :: "real option"
  isOpen :: "bool option"
  distance :: "real option"
  placeId :: "string option"

record googlePlace =
  place_id :: string
  place_name :: string
  vicinity :: "string option"
  formatted_address :: "string option"
  location_lat :: real
  location_lng :: real
  place_rating :: "real option"
  open_now :: "bool option"

record placesBody =
  places_status :: string
  results :: "googlePlace list option"

text \<open>
  An element of the Overpass answer; \<^verbatim>\<open>el.tags?.x\<close> is absent when the tags or the
  tag are.
\<close>

record osmElement =
  el_id :: real
  el_lat :: "real option"
  el_lon :: "real option"
  center :: "(real \<times> real) option"
  tag_name :: "string option"
  tag_addr_full :: "string option"
  tag_addr_street :: "string option"
  tag_amenity :: "string option"
  tag_emergency :: "string option"
  tag_phone :: "string option"

definition SHELTER_CACHE_DURATION :: int where
  "SHELTER_CACHE_DURATION = 15 * 60 * 1000"

text \<open>\<^verbatim>\<open>a || b\<close> on an absent or empty string, and on an absent or zero number.\<close>

definition truthyString :: "string option \<Rightarrow> string option" where
  "truthyString v = (case v of Some x \<Rightarrow> if x \<noteq> [] then Some x else None | None \<Rightarrow> None)"

definition truthyNumber :: "real option \<Rightarrow> real option" where
  "truthyNumber v = (case v of Some x \<Rightarrow> if x \<noteq> 0 then Some x else None | None \<Rightarrow> None)"

text \<open>
  The three mapping tables, read at their own keys: the types are those of the list
  \<^verbatim>\<open>placeTypes\<close>, the tags those of the elements that the Overpass query asks for. A tag
  that names a property inherited from \<^verbatim>\<open>Object.prototype\<close> is outside the model.
\<close>

definition mapGoogleTypeToShelterType :: "string \<Rightarrow> shelterType" where
  "mapGoogleTypeToShelterType ty =
     orDefault
       (map_of [(''hospital'', Hospital), (''fire_station'', FireStation), (''police'', Police),
                (''school'', School), (''local_government_office'', CommunityCenter)] ty)
       Shelter"

definition mapOsmAmenityToType :: "string option \<Rightarrow> shelterType" where
  "mapOsmAmenityToType amenity =
     (case amenity of
        None \<Rightarrow> Shelter
      | Some a \<Rightarrow>
          orDefault
            (map_of [(''hospital'', Hospital), (''fire_station'', FireStation), (''police'', Police),
                     (''school'', School), (''shelter'', Shelter), (''assembly_point'', Shelter)] a)
            Shelter)"

definition mapOsmAmenityToName :: "string option \<Rightarrow> string" where
  "mapOsmAmenityToName amenity =
     (case amenity of
        None \<Rightarrow> ''Emergency Facility''
      | Some a \<Rightarrow>
          orDefault
            (map_of [(''hospital'', ''Hospital''), (''fire_station'', ''Fire Station''),
                     (''police'', ''Police Station''), (''school'', ''School''),
                     (''shelter'', ''Emergency Shelter'')] a)
            ''Emergency Facility'')"

text \<open>The key of a sort \<^verbatim>\<open>(a, b) => (a.distance || 0) - (b.distance || 0)\<close>.\<close>

definition distanceKey :: "RealShelter \<Rightarrow> real" where
  "distanceKey sh = orDefault (distance sh) 0"

type_synonym shelterCache = "(fixed \<times> fixed \<times> real, RealShelter list) cache"

text \<open>
  \<^verbatim>\<open>searchOpenStreetMapShelters\<close>. An element without a latitude or a longitude (or with
  one that is 0) is dropped by the \<^verbatim>\<open>filter\<close>; the index in a generated name counts all
  elements. The whole sorted list is stored, its first 20 entries are returned.
\<close>

definition osmShelter :: "real \<Rightarrow> real \<Rightarrow> nat \<times> osmElement \<Rightarrow> RealShelter option" where
  "osmShelter lat lng p =
     (let index = fst p; el = snd p;
          elLat = (case truthyNumber (el_lat el) of Some v \<Rightarrow> Some v | None \<Rightarrow> map_option fst (center el));
          elLng = (case truthyNumber (el_lon el) of Some v \<Rightarrow> Some v | None \<Rightarrow> map_option snd (center el))
      in case (truthyNumber elLat, truthyNumber elLng) of
           (Some latV, Some lngV) \<Rightarrow>
             Some \<lparr>sh_id = [Txt ''osm-'', Num (el_id el)],
                   sh_name =
                     (case truthyString (tag_name el) of
                        Some n \<Rightarrow> [Txt n]
                      | None \<Rightarrow> [Txt (mapOsmAmenityToName (tag_amenity el)), Txt '' #'',
                                  Num (real (index + 1))]),
                   address =
                     (case truthyString (tag_addr_full el) of
                        Some a \<Rightarrow> a
                      | None \<Rightarrow> orDefault (truthyString (tag_addr_street el)) ''Address not available''),
                   sh_lat = latV,
                   sh_lng = lngV,
                   sh_type =
                     mapOsmAmenityToType
                       (case truthyString (tag_amenity el) of
                          Some a \<Rightarrow> Some a
                        | None \<Rightarrow> tag_emergency el),
                   phone = tag_phone el,
                   rating = None,
                   isOpen = Some True,
                   distance = Some (shelterDistance lat lng latV lngV),
                   placeId = None\<rparr>
         | _ \<Rightarrow> None)"

definition searchOpenStreetMapShelters ::
  "shelterCache \<Rightarrow> osmElement list fetched \<Rightarrow> int \<Rightarrow> real \<Rightarrow> real \<Rightarrow> real
    \<Rightarrow> RealShelter list \<times> shelterCache \<times> request list" where
  "searchOpenStreetMapShelters shelterCache osmAnswer osmNow lat lng radius =
     (case osmAnswer of
        HttpResponse True (Some elements) \<Rightarrow>
          (let shelters = List.map_filter (osmShelter lat lng) (enumerate 0 elements);
               shelters = sort_key distanceKey shelters;
               cacheKey = (toFixed 3 lat, toFixed 3 lng, radius)
           in (take 20 shelters,
               shelterCache(cacheKey \<mapsto> \<lparr>data = shelters, timestamp = osmNow\<rparr>),
               [OverpassRequest lat lng radius]))
      | _ \<Rightarrow> ([], shelterCache, [OverpassRequest lat lng radius]))"

text \<open>
  The loop of \<^verbatim>\<open>searchRealShelters\<close> over the five place types. \<open>None\<close> is an exception
  thrown inside the \<^verbatim>\<open>try\<close> block: a rejected \<^verbatim>\<open>fetch\<close>, a body that cannot be read,
  a body with the status \<^verbatim>\<open>OK\<close> and no \<^verbatim>\<open>results\<close>. The requests sent so far are returned
  in both cases.
\<close>

definition placeShelter :: "real \<Rightarrow> real \<Rightarrow> string \<Rightarrow> googlePlace \<Rightarrow> RealShelter" where
  "placeShelter lat lng ty p =
     \<lparr>sh_id = [Txt (place_id p)],
      sh_name = [Txt (place_name p)],
      address =
        (case truthyString (vicinity p) of
           Some a \<Rightarrow> a
         | None \<Rightarrow> orDefault (truthyString (formatted_address p)) []),
      sh_lat = location_lat p,
      sh_lng = location_lng p,
      sh_type = mapGoogleTypeToShelterType ty,
      phone = None,
      rating = place_rating p,
      isOpen = open_now p,
      distance = Some (shelterDistance lat lng (location_lat p) (location_lng p)),
      placeId = Some (place_id p)\<rparr>"

fun placesLoop ::
  "real \<Rightarrow> real \<Rightarrow> real \<Rightarrow> string \<Rightarrow> (string \<Rightarrow> placesBody fetched) \<Rightarrow> string list
    \<Rightarrow> RealShelter list \<Rightarrow> request list \<times> RealShelter list option" where
  "placesLoop lat lng radius apiKey answers [] shelters = ([], Some shelters)"
| "placesLoop lat lng radius apiKey answers (ty # placeTypes) shelters =
     (let sent = PlacesRequest lat lng radius ty apiKey;
          continue = (\<lambda>shelters'.
            (let (requests, outcome) = placesLoop lat lng radius apiKey answers placeTypes shelters'
             in (sent # requests, outcome)))
      in case answers ty of
           HttpResponse ok body \<Rightarrow>
             if \<not> ok then continue shelters
             else
               (case body of
                  None \<Rightarrow> ([sent], None)
                | Some b \<Rightarrow>
                    if places_status b \<noteq> ''OK'' then continue shelters
                    else
                      (case results b of
                         None \<Rightarrow> ([sent], None)
                       | Some places \<Rightarrow>
                           continue (shelters @ map (placeShelter lat lng ty) (take 5 places))))
         | _ \<Rightarrow> ([sent], None))"

definition placeTypes :: "string list" where
  "placeTypes = [''hospital'', ''fire_station'', ''police'', ''school'', ''local_government_office'']"

text \<open>
  \<^verbatim>\<open>searchRealShelters\<close>. \<open>now\<close> is the clock at the lookup; \<open>googleAnswers\<close> gives the
  answer to the request for each place type and \<open>googleNow\<close> is the clock when the sorted
  list is stored; \<open>osmAnswer\<close> and \<open>osmNow\<close> are those of the fallback.
\<close>

definition searchRealShelters ::
  "shelterCache \<Rightarrow> int \<Rightarrow> (string \<Rightarrow> placesBody fetched) \<Rightarrow> int \<Rightarrow> osmElement list fetched \<Rightarrow> int
    \<Rightarrow> real \<Rightarrow> real \<Rightarrow> string \<Rightarrow> real
    \<Rightarrow> RealShelter list \<times> shelterCache \<times> request list" where
  "searchRealShelters shelterCache now googleAnswers googleNow osmAnswer osmNow lat lng apiKey radius =
     (let cacheKey = (toFixed 3 lat, toFixed 3 lng, radius);
          cached = shelterCache cacheKey;
          searching =
            (if apiKey = [] \<or> apiKey = ''demo-key'' \<or> str_includes apiKey ''your_'' then
               searchOpenStreetMapShelters shelterCache osmAnswer osmNow lat lng radius
             else
               (case placesLoop lat lng radius apiKey googleAnswers placeTypes [] of
                  (requests, Some shelters) \<Rightarrow>
                    (let shelters = sort_key distanceKey shelters
                     in (shelters,
                         shelterCache(cacheKey \<mapsto> \<lparr>data = shelters, timestamp = googleNow\<rparr>),
                         requests))
                | (requests, None) \<Rightarrow>
                    (let (shelters, shelterCache', requests') =
                           searchOpenStreetMapShelters shelterCache osmAnswer osmNow lat lng radius
                     in (shelters, shelterCache', requests @ requests'))))
      in case cached of
           Some entry \<Rightarrow>
             if now - timestamp entry < SHELTER_CACHE_DURATION then (data entry, shelterCache, [])
             else searching
         | None \<Rightarrow> searching)"

section \<open>The cache of the advanced prediction service\<close>

text \<open>
  \<^verbatim>\<open>src/services/advancedMLApi.ts\<close>. Three methods go through one \<^verbatim>\<open>Map\<close>, under the
  keys \<^verbatim>\<open>${endpoint}:${JSON.stringify(params)}\<close> of the endpoints \<^verbatim>\<open>ensemble\<close>,
  \<^verbatim>\<open>ensemble-get\<close> and \<^verbatim>\<open>anomaly\<close>; the model keeps one map for each endpoint, its key
  the tuple of the parameters (a parameter that is \<^verbatim>\<open>undefined\<close> is left out of the JSON
  text: \<open>None\<close>). The bodies of the answers are returned as they come, so their types
  are parameters; they are objects, as their declared types say, so a cached body is
  truthy. The methods have no \<^verbatim>\<open>try\<close>: a failed request rejects the promise, which
  is the left summand of the result. \<^verbatim>\<open>clearCache\<close> is exported through the method of the
  same name.
\<close>

definition ADVANCED_CACHE_DURATION :: int where
  "ADVANCED_CACHE_DURATION = 5 * 60 * 1000"

definition advancedGetFromCache :: "('k, 'a) cache \<Rightarrow> int \<Rightarrow> 'k \<Rightarrow> 'a option" where
  "advancedGetFromCache cache now key =
     (case cache key of
        Some cached \<Rightarrow>
          if now - timestamp cached < ADVANCED_CACHE_DURATION then Some (data cached) else None
      | None \<Rightarrow> None)"

definition advancedSetCache :: "('k, 'a) cache \<Rightarrow> int \<Rightarrow> 'k \<Rightarrow> 'a \<Rightarrow> ('k, 'a) cache" where
  "advancedSetCache cache now key d = cache(key \<mapsto> \<lparr>data = d, timestamp = now\<rparr>)"

record ('f, 'a) advancedCache =
  ensemble_entries :: "(real \<times> real, 'f) cache"
  ensembleGet_entries :: "(real \<times> real \<times> string option \<times> string option, 'f) cache"
  anomaly_entries :: "(real \<times> real \<times> real, 'a) cache"

definition advancedClearCache :: "('f, 'a) advancedCache \<Rightarrow> ('f, 'a) advancedCache" where
  "advancedClearCache cache =
     \<lparr>ensemble_entries = Map.empty, ensembleGet_entries = Map.empty, anomaly_entries = Map.empty\<rparr>"

datatype rejection =
    FetchRejected
  | EnsemblePredictionFailed
  | AnomalyDetectionFailed
  | BodyUnreadable
  | AllWeatherApisFailed

record location =
  loc_latitude :: real
  loc_longitude :: real
  loc_district :: "string option"
  loc_state :: "string option"
  loc_region_type :: "string option"

definition getEnsemblePrediction ::
  "(real \<times> real, 'f) cache \<Rightarrow> 'f call \<Rightarrow> location
    \<Rightarrow> (rejection + 'f) \<times> (real \<times> real, 'f) cache \<times> request list" where
  "getEnsemblePrediction cache c loc =
     (let cacheKey = (loc_latitude loc, loc_longitude loc);
          sent = FloodPredictPost (loc_latitude loc) (loc_longitude loc) (loc_district loc)
                   (loc_state loc) (loc_region_type loc)
      in case advancedGetFromCache cache (started c) cacheKey of
           Some cached \<Rightarrow> (Inr cached, cache, [])
         | None \<Rightarrow>
             (case answer c of
                HttpResponse ok body \<Rightarrow>
                  if \<not> ok then (Inl EnsemblePredictionFailed, cache, [sent])
                  else
                    (case body of
                       None \<Rightarrow> (Inl BodyUnreadable, cache, [sent])
                     | Some d \<Rightarrow> (Inr d, advancedSetCache cache (answered c) cacheKey d, [sent]))
              | _ \<Rightarrow> (Inl FetchRejected, cache, [sent])))"

definition getEnsemblePredictionGet ::
  "(real \<times> real \<times> string option \<times> string option, 'f) cache \<Rightarrow> 'f call
    \<Rightarrow> real \<Rightarrow> real \<Rightarrow> string option \<Rightarrow> string option
    \<Rightarrow> (rejection + 'f) \<times> (real \<times> real \<times> string option \<times> string option, 'f) cache \<times> request list" where
  "getEnsemblePredictionGet cache c lat lon district state =
     (let cacheKey = (lat, lon, district, state);
          sent = FloodPredictGet lat lon (truthyString district) (truthyString state)
      in case advancedGetFromCache cache (started c) cacheKey of
           Some cached \<Rightarrow> (Inr cached, cache, [])
         | None \<Rightarrow>
             (case answer c of
                HttpResponse ok body \<Rightarrow>
                  if \<not> ok then (Inl EnsemblePredictionFailed, cache, [sent])
                  else
                    (case body of
                       None \<Rightarrow> (Inl BodyUnreadable, cache, [sent])
                     | Some d \<Rightarrow> (Inr d, advancedSetCache cache (answered c) cacheKey d, [sent]))
              | _ \<Rightarrow> (Inl FetchRejected, cache, [sent])))"

definition getAnomalyDetection ::
  "(real \<times> real \<times> real, 'a) cache \<Rightarrow> 'a call \<Rightarrow> real \<Rightarrow> real \<Rightarrow> real
    \<Rightarrow> (rejection + 'a) \<times> (real \<times> real \<times> real, 'a) cache \<times> request list" where
  "getAnomalyDetection cache c lat lon timeWindowHours =
     (let cacheKey = (lat, lon, timeWindowHours);
          sent = AnomalyDetectGet lat lon timeWindowHours
      in case advancedGetFromCache cache (started c) cacheKey of
           Some cached \<Rightarrow> (Inr cached, cache, [])
         | None \<Rightarrow>
             (case answer c of
                HttpResponse ok body \<Rightarrow>
                  if \<not> ok then (Inl AnomalyDetectionFailed, cache, [sent])
                  else
                    (case body of
                       None \<Rightarrow> (Inl BodyUnreadable, cache, [sent])
                     | Some d \<Rightarrow> (Inr d, advancedSetCache cache (answered c) cacheKey d, [sent]))
              | _ \<Rightarrow> (Inl FetchRejected, cache, [sent])))"

section \<open>The alert service\<close>

text \<open>
  \<^verbatim>\<open>src/unnamed/part_007\<close>. \<^verbatim>\<open>fetchRealDisasterAlerts\<close> looks its cache up, and on a
  miss asks USGS and EONET, merges and sorts what they give, stores and returns it; each
  of the two inner fetchers catches its own exceptions and returns the empty list then.
  \<^verbatim>\<open>clearAlertCache\<close> is exported. A start time is the ISO text of a time in milliseconds
  or the text that EONET sent. The request to USGS also carries the date a week before
  the clock, which is left out here.
\<close>

datatype alertType =
  AlertFlood | AlertEarthquake | AlertStorm | AlertFire | AlertTsunami | AlertCyclone
  | AlertLandslide | AlertOther

datatype alertSeverity = Minor | ModerateSeverity | Severe | Extreme

datatype isoTime = IsoOfMillis real | IsoText string

record DisasterAlert =
  da_id :: template
  da_type :: alertType
  da_severity :: alertSeverity
  da_title :: template
  da_description :: template
  da_location :: "real \<times> real \<times> string"
  da_startTime :: isoTime
  da_endTime :: "string option"
  da_source :: string
  da_url :: "string option"
  da_distance :: "real option"

definition ALERT_CACHE_DURATION :: int where
  "ALERT_CACHE_DURATION = 10 * 60 * 1000"

type_synonym alertCache = "(fixed \<times> fixed \<times> real, DisasterAlert list) cache"

definition clearAlertCache :: "alertCache \<Rightarrow> alertCache" where
  "clearAlertCache alertCache = Map.empty"

text \<open>\<^verbatim>\<open>calculateDistance\<close> of the alert service: rounded to a whole number of kilometres.\<close>

definition alertDistance :: "real \<Rightarrow> real \<Rightarrow> real \<Rightarrow> real \<Rightarrow> real" where
  "alertDistance lat1 lng1 lat2 lng2 =
     (let R = 6371;
          dLat = (lat2 - lat1) * pi / 180;
          dLng = (lng2 - lng1) * pi / 180;
          a = sin (dLat / 2) * sin (dLat / 2) +
              cos (lat1 * pi / 180) * cos (lat2 * pi / 180) *
              sin (dLng / 2) * sin (dLng / 2);
          c = 2 * atan2 (sqrt a) (sqrt (1 - a))
      in jsRound (R * c))"

record alertFeature =
  af_id :: string
  af_mag :: real
  af_place :: "string option"
  af_time :: real
  af_url :: "string option"
  af_coordinates :: "real \<times> real \<times> real"

definition alertTypeText :: "alertType \<Rightarrow> string" where
  "alertTypeText t =
     (case t of
        AlertFlood \<Rightarrow> ''flood'' | AlertEarthquake \<Rightarrow> ''earthquake'' | AlertStorm \<Rightarrow> ''storm''
      | AlertFire \<Rightarrow> ''fire'' | AlertTsunami \<Rightarrow> ''tsunami'' | AlertCyclone \<Rightarrow> ''cyclone''
      | AlertLandslide \<Rightarrow> ''landslide'' | AlertOther \<Rightarrow> ''other'')"

definition earthquakeAlert :: "real \<Rightarrow> real \<Rightarrow> alertFeature \<Rightarrow> DisasterAlert" where
  "earthquakeAlert lat lng feature =
     (let coords = af_coordinates feature;
          magnitude = af_mag feature;
          distance = alertDistance lat lng (fst (snd coords)) (fst coords)
      in \<lparr>da_id = [Txt ''usgs-'', Txt (af_id feature)],
          da_type = AlertEarthquake,
          da_severity = (if magnitude \<ge> 6 then Extreme else if magnitude \<ge> 5 then Severe
                         else if magnitude \<ge> 4 then ModerateSeverity else Minor),
          da_title = [Txt ''M'', Fixed1 magnitude, Txt '' Earthquake''],
          da_description = [Txt (orDefault (truthyString (af_place feature)) ''Location unknown'')],
          da_location = (fst (snd coords), fst coords,
                         orDefault (truthyString (af_place feature)) ''Unknown''),
          da_startTime = IsoOfMillis (af_time feature),
          da_endTime = None,
          da_source = ''USGS'',
          da_url = af_url feature,
          da_distance = Some distance\<rparr>)"

text \<open>
  The inner fetcher for USGS. \<^verbatim>\<open>toISOString\<close> throws on a time outside the range of
  dates, 8.64e15 milliseconds either side of the epoch; an exception anywhere in the
  \<^verbatim>\<open>try\<close> block gives the empty list.
\<close>

definition alertUSGSEarthquakes :: "alertFeature list fetched \<Rightarrow> real \<Rightarrow> real \<Rightarrow> DisasterAlert list" where
  "alertUSGSEarthquakes ans lat lng =
     (case ans of
        HttpResponse True (Some features) \<Rightarrow>
          if list_all (\<lambda>f. \<bar>af_time f\<bar> \<le> 8640000000000000) features then
            take 10 (map (earthquakeAlert lat lng) features)
          else []
      | _ \<Rightarrow> [])"

record alertEvent =
  ae_id :: string
  ae_title :: string
  ae_link :: "string option"
  ae_category_id :: "string option"
  ae_geometry :: "(string \<times> real \<times> real) list"

definition mapNASACategory :: "string option \<Rightarrow> alertType" where
  "mapNASACategory categoryId =
     (case categoryId of
        None \<Rightarrow> AlertOther
      | Some c \<Rightarrow>
          orDefault
            (map_of [(''wildfires'', AlertFire), (''volcanoes'', AlertOther),
                     (''severeStorms'', AlertStorm), (''floods'', AlertFlood),
                     (''earthquakes'', AlertEarthquake), (''drought'', AlertOther),
                     (''dustHaze'', AlertOther), (''landslides'', AlertLandslide),
                     (''manmade'', AlertOther), (''seaLakeIce'', AlertOther),
                     (''snow'', AlertStorm), (''tempExtremes'', AlertOther),
                     (''waterColor'', AlertOther)] c)
            AlertOther)"

text \<open>
  An entry of the geometry of an event is its date, longitude and latitude. The filter
  keeps an event whose first entry lies within the radius. The table of the categories
  is read at its own keys, the category ids of EONET.
\<close>

definition eonetAlert :: "real \<Rightarrow> real \<Rightarrow> real \<Rightarrow> alertEvent \<Rightarrow> DisasterAlert option" where
  "eonetAlert lat lng radiusKm event =
     (case ae_geometry event of
        [] \<Rightarrow> None
      | (date, evtLng, evtLat) # _ \<Rightarrow>
          (let distance = alertDistance lat lng evtLat evtLng;
               eventType = mapNASACategory (ae_category_id event)
           in if distance \<le> radiusKm then
                Some \<lparr>da_id = [Txt ''nasa-'', Txt (ae_id event)],
                      da_type = eventType,
                      da_severity = ModerateSeverity,
                      da_title = [Txt (ae_title event)],
                      da_description =
                        [Txt ''Active '', Txt (alertTypeText eventType),
                         Txt '' event detected by NASA satellites''],
                      da_location = (evtLat, evtLng, ae_title event),
                      da_startTime = IsoText date,
                      da_endTime = None,
                      da_source = ''NASA EONET'',
                      da_url = ae_link event,
                      da_distance = Some distance\<rparr>
              else None))"

definition alertNASAEONET :: "alertEvent list fetched \<Rightarrow> real \<Rightarrow> real \<Rightarrow> real \<Rightarrow> DisasterAlert list" where
  "alertNASAEONET ans lat lng radiusKm =
     (case ans of
        HttpResponse True (Some evs) \<Rightarrow> take 10 (List.map_filter (eonetAlert lat lng radiusKm) evs)
      | _ \<Rightarrow> [])"

text \<open>
  The comparator of the sort: by severity, extreme first, then by distance. A stable sort
  by the distance followed by a stable sort by the severity is the sort by both.
\<close>

definition severityOrder :: "alertSeverity \<Rightarrow> nat" where
  "severityOrder v = (case v of Extreme \<Rightarrow> 0 | Severe \<Rightarrow> 1 | ModerateSeverity \<Rightarrow> 2 | Minor \<Rightarrow> 3)"

definition fetchRealDisasterAlerts ::
  "alertCache \<Rightarrow> int \<Rightarrow> int \<Rightarrow> alertFeature list fetched \<Rightarrow> alertEvent list fetched
    \<Rightarrow> real \<Rightarrow> real \<Rightarrow> real \<Rightarrow> DisasterAlert list \<times> alertCache \<times> request list" where
  "fetchRealDisasterAlerts alertCache now now' usgsAnswer eonetAnswer lat lng radiusKm =
     (let cacheKey = (toFixed 1 lat, toFixed 1 lng, radiusKm);
          cached = alertCache cacheKey;
          fetching =
            (let alerts = alertUSGSEarthquakes usgsAnswer lat lng
                            @ alertNASAEONET eonetAnswer lat lng radiusKm;
                 alerts = sort_key (\<lambda>a. severityOrder (da_severity a))
                            (sort_key (\<lambda>a. orDefault (da_distance a) 0) alerts)
             in (alerts,
                 alertCache(cacheKey \<mapsto> \<lparr>data = alerts, timestamp = now'\<rparr>),
                 [AlertUsgsRequest lat lng radiusKm, AlertEonetRequest]))
      in case cached of
           Some entry \<Rightarrow>
             if now - timestamp entry < ALERT_CACHE_DURATION then (data entry, alertCache, [])
             else fetching
         | None \<Rightarrow> fetching)"

section \<open>The simple weather service\<close>

text \<open>
  \<^verbatim>\<open>src/unnamed/part_008\<close>. \<^verbatim>\<open>SimpleWeatherService.getWeather\<close> looks its cache up; on a
  miss it asks OpenWeatherMap, then Open-Meteo; when both fail it returns the entry it
  found, however old, and rejects when there is none. \<^verbatim>\<open>clearCache\<close> is a public
  static method. \<open>readAt\<close> is the clock that an answer is stamped with
  (\<^verbatim>\<open>last_updated\<close>), \<open>storedAt\<close> the clock when it is stored. A body that cannot be
  read, or that lacks the objects the fetcher reads its fields from, is \<open>None\<close>.
\<close>

record weatherCondition =
  wc_main :: string
  wc_description :: string
  wc_icon :: string

record currentWeather =
  cw_temp :: real
  cw_feels_like :: real
  cw_humidity :: real
  cw_pressure :: real
  cw_wind_speed :: real
  cw_visibility :: real
  cw_uvi :: real
  cw_weather :: "weatherCondition list"

record SimpleWeatherData =
  sw_current :: currentWeather
  sw_last_updated :: isoTime
  sw_is_real :: bool
  sw_source :: string

record openWeatherBody =
  ow_temp :: real
  ow_feels_like :: real
  ow_humidity :: real
  ow_pressure :: real
  ow_wind_speed :: real
  ow_visibility :: "real option"
  ow_weather :: "weatherCondition list option"

record openMeteoBody =
  om_temperature_2m :: real
  om_apparent_temperature :: real
  om_relative_humidity_2m :: real
  om_surface_pressure :: real
  om_wind_speed_10m :: real
  om_visibility :: "real option"
  om_weather_code :: "real option"

record 'a reply =
  reply_body :: "'a fetched"
  readAt :: int
  storedAt :: int

definition SIMPLE_CACHE_DURATION :: int where
  "SIMPLE_CACHE_DURATION = 5 * 60 * 1000"

type_synonym simpleCache = "(fixed \<times> fixed, SimpleWeatherData) cache"

definition simpleClearCache :: "simpleCache \<Rightarrow> simpleCache" where
  "simpleClearCache weatherCache = Map.empty"

definition condition :: "string \<Rightarrow> string \<Rightarrow> string \<Rightarrow> weatherCondition" where
  "condition m d i = \<lparr>wc_main = m, wc_description = d, wc_icon = i\<rparr>"

definition fetchOpenWeatherMap :: "openWeatherBody reply \<Rightarrow> rejection + SimpleWeatherData" where
  "fetchOpenWeatherMap r =
     (case reply_body r of
        HttpResponse True (Some d) \<Rightarrow>
          Inr \<lparr>sw_current =
                 \<lparr>cw_temp = ow_temp d,
                  cw_feels_like = ow_feels_like d,
                  cw_humidity = ow_humidity d,
                  cw_pressure = ow_pressure d,
                  cw_wind_speed = ow_wind_speed d * 3.6,
                  cw_visibility = orDefault (truthyNumber (ow_visibility d)) 10000,
                  cw_uvi = 0,
                  cw_weather = orDefault (ow_weather d) [condition ''Clear'' ''clear sky'' ''01d'']\<rparr>,
               sw_last_updated = IsoOfMillis (real_of_int (readAt r)),
               sw_is_real = True,
               sw_source = ''OpenWeatherMap''\<rparr>
      | HttpResponse True None \<Rightarrow> Inl BodyUnreadable
      | _ \<Rightarrow> Inl FetchRejected)"

definition mapWeatherCode :: "real \<Rightarrow> weatherCondition" where
  "mapWeatherCode code =
     orDefault
       (map_of
          [(0, condition ''Clear'' ''clear sky'' ''01d''),
           (1, condition ''Clear'' ''mainly clear'' ''01d''),
           (2, condition ''Clouds'' ''partly cloudy'' ''02d''),
           (3, condition ''Clouds'' ''overcast'' ''04d''),
           (45, condition ''Fog'' ''fog'' ''50d''),
           (48, condition ''Fog'' ''depositing rime fog'' ''50d''),
           (51, condition ''Drizzle'' ''light drizzle'' ''09d''),
           (53, condition ''Drizzle'' ''moderate drizzle'' ''09d''),
           (55, condition ''Drizzle'' ''dense drizzle'' ''09d''),
           (61, condition ''Rain'' ''slight rain'' ''10d''),
           (63, condition ''Rain'' ''moderate rain'' ''10d''),
           (65, condition ''Rain'' ''heavy rain'' ''10d''),
           (71, condition ''Snow'' ''slight snow'' ''13d''),
           (73, condition ''Snow'' ''moderate snow'' ''13d''),
           (75, condition ''Snow'' ''heavy snow'' ''13d''),
           (77, condition ''Snow'' ''snow grains'' ''13d''),
           (80, condition ''Rain'' ''slight rain showers'' ''09d''),
           (81, condition ''Rain'' ''moderate rain showers'' ''09d''),
           (82, condition ''Rain'' ''violent rain showers'' ''09d''),
           (85, condition ''Snow'' ''slight snow showers'' ''13d''),
           (86, condition ''Snow'' ''heavy snow showers'' ''13d''),
           (95, condition ''Thunderstorm'' ''thunderstorm'' ''11d''),
           (96, condition ''Thunderstorm'' ''thunderstorm with slight hail'' ''11d''),
           (99, condition ''Thunderstorm'' ''thunderstorm with heavy hail'' ''11d'')] code)
       (condition ''Unknown'' ''unknown'' ''01d'')"

definition fetchOpenMeteo :: "openMeteoBody reply \<Rightarrow> rejection + SimpleWeatherData" where
  "fetchOpenMeteo r =
     (case reply_body r of
        HttpResponse True (Some current) \<Rightarrow>
          (let weatherCode = orDefault (truthyNumber (om_weather_code current)) 0
           in Inr \<lparr>sw_current =
                      \<lparr>cw_temp = om_temperature_2m current,
                       cw_feels_like = om_apparent_temperature current,
                       cw_humidity = om_relative_humidity_2m current,
                       cw_pressure = om_surface_pressure current,
                       cw_wind_speed = om_wind_speed_10m current,
                       cw_visibility = orDefault (truthyNumber (om_visibility current)) 10000,
                       cw_uvi = 0,
                       cw_weather = [mapWeatherCode weatherCode]\<rparr>,
                    sw_last_updated = IsoOfMillis (real_of_int (readAt r)),
                    sw_is_real = True,
                    sw_source = ''Open-Meteo''\<rparr>)
      | HttpResponse True None \<Rightarrow> Inl BodyUnreadable
      | _ \<Rightarrow> Inl FetchRejected)"

definition getWeather ::
  "simpleCache \<Rightarrow> int \<Rightarrow> openWeatherBody reply \<Rightarrow> openMeteoBody reply \<Rightarrow> real \<Rightarrow> real
    \<Rightarrow> (rejection + SimpleWeatherData) \<times> simpleCache \<times> request list" where
  "getWeather weatherCache now owm om lat lon =
     (let cacheKey = (toFixed 2 lat, toFixed 2 lon);
          cached = weatherCache cacheKey;
          fetching =
            (case fetchOpenWeatherMap owm of
               Inr d \<Rightarrow>
                 (Inr d, weatherCache(cacheKey \<mapsto> \<lparr>data = d, timestamp = storedAt owm\<rparr>),
                  [OpenWeatherMapRequest lat lon])
             | Inl owmError \<Rightarrow>
                 (case fetchOpenMeteo om of
                    Inr d \<Rightarrow>
                      (Inr d, weatherCache(cacheKey \<mapsto> \<lparr>data = d, timestamp = storedAt om\<rparr>),
                       [OpenWeatherMapRequest lat lon, OpenMeteoRequest lat lon])
                  | Inl omError \<Rightarrow>
                      (case cached of
                         Some entry \<Rightarrow>
                           (Inr (data entry), weatherCache,
                            [OpenWeatherMapRequest lat lon, OpenMeteoRequest lat lon])
                       | None \<Rightarrow>
                           (Inl AllWeatherApisFailed, weatherCache,
                            [OpenWeatherMapRequest lat lon, OpenMeteoRequest lat lon]))))
      in case cached of
           Some entry \<Rightarrow>
             if now - timestamp entry < SIMPLE_CACHE_DURATION then (Inr (data entry), weatherCache, [])
             else fetching
         | None \<Rightarrow> fetching)"

section \<open>Properties stated about the results\<close>

text \<open>The threshold mapping between the probability and the risk level of a result.\<close>

definition levelConsistent :: "HazardRiskResult \<Rightarrow> bool" where
  "levelConsistent r \<longleftrightarrow>
     (riskLevel r = Critical \<longleftrightarrow> probability r \<ge> 0.70) \<and>
     (riskLevel r = High \<longleftrightarrow> 0.45 \<le> probability r \<and> probability r < 0.70) \<and>
     (riskLevel r = Moderate \<longleftrightarrow> 0.20 \<le> probability r \<and> probability r < 0.45) \<and>
     (riskLevel r = Low \<longleftrightarrow> probability r < 0.20)"


text \<open>A report of the simple weather service, for the examples.\<close>

definition sampleWeather :: SimpleWeatherData where
  "sampleWeather =
     \<lparr>sw_current =
        \<lparr>cw_temp = 30, cw_feels_like = 32, cw_humidity = 60, cw_pressure = 1010,
         cw_wind_speed = 10, cw_visibility = 10000, cw_uvi = 0,
         cw_weather = [condition ''Clear'' ''clear sky'' ''01d'']\<rparr>,
      sw_last_updated = IsoOfMillis 0, sw_is_real = True, sw_source = ''Open-Meteo''\<rparr>"

text \<open>An upper-case letter of ASCII.\<close>

definition isUpper :: "char \<Rightarrow> bool" where
  "isUpper c \<longleftrightarrow> 65 \<le> (of_char c :: nat) \<and> (of_char c :: nat) \<le> 90"

text \<open>The test of the substring loop of \<open>getGeographicData\<close> on one key.\<close>

definition matches :: "string \<Rightarrow> string \<Rightarrow> bool" where
  "matches normalizedCity key \<longleftrightarrow> str_includes normalizedCity key \<or> str_includes key normalizedCity"

text \<open>
  The quantity \<open>a\<close> of both distance functions: the haversine of the central angle
  between the two points, the coordinates in degrees.
\<close>

definition haversineA :: "real \<Rightarrow> real \<Rightarrow> real \<Rightarrow> real \<Rightarrow> real" where
  "haversineA lat1 lon1 lat2 lon2 =
     sin ((lat2 - lat1) * pi / 180 / 2) * sin ((lat2 - lat1) * pi / 180 / 2) +
     cos (lat1 * pi / 180) * cos (lat2 * pi / 180) *
     sin ((lon2 - lon1) * pi / 180 / 2) * sin ((lon2 - lon1) * pi / 180 / 2)"

text \<open>
  The probability that the entry of a hazard type in the list of \<open>getHazardPredictions\<close>
  carries, as a function of what the five scoring functions read.
\<close>

definition hazardProbability :: "hazardType \<Rightarrow> nat \<Rightarrow> CityGeographicData \<Rightarrow> WeatherData \<Rightarrow> real" where
  "hazardProbability h month geoData weather =
     probability
       (case h of
          Flood \<Rightarrow> calculateFloodRisk month geoData weather
        | Earthquake \<Rightarrow> calculateEarthquakeRisk geoData
        | Storm \<Rightarrow> calculateStormRisk geoData weather
        | Fire \<Rightarrow> calculateFireRisk geoData weather
        | Landslide \<Rightarrow> calculateLandslideRisk geoData weather)"

text \<open>
  What it is for an operation to go through a cache with a time to live. The operation
  looked the key up at the time \<open>now\<close> and came back with a result, the cache after it and
  the requests it has sent. An entry of the key younger than the duration is returned
  as it is, the cache is left alone and nothing is sent; otherwise a request is sent;
  no key is ever removed, and no other key is touched.
\<close>

definition ttlCached ::
  "int \<Rightarrow> int \<Rightarrow> ('k, 'a) cache \<Rightarrow> 'k \<Rightarrow> 'a \<Rightarrow> ('k, 'a) cache \<Rightarrow> request list \<Rightarrow> bool" where
  "ttlCached duration now cache key result cache' requests \<longleftrightarrow>
     (\<forall>entry. cache key = Some entry \<and> now - timestamp entry < duration \<longrightarrow>
        result = data entry \<and> cache' = cache \<and> requests = []) \<and>
     (\<not> (\<exists>entry. cache key = Some entry \<and> now - timestamp entry < duration) \<longrightarrow> requests \<noteq> []) \<and>
     dom cache \<subseteq> dom cache' \<and>
     (\<forall>k. k \<noteq> key \<longrightarrow> cache' k = cache k)"

text \<open>
  The same for an operation that may reject: the result is the cached data, or what the
  operation came to after its requests.
\<close>

definition ttlCachedOrRejected ::
  "int \<Rightarrow> int \<Rightarrow> ('k, 'a) cache \<Rightarrow> 'k \<Rightarrow> rejection + 'a \<Rightarrow> ('k, 'a) cache \<Rightarrow> request list
    \<Rightarrow> bool" where
  "ttlCachedOrRejected duration now cache key result cache' requests \<longleftrightarrow>
     (\<forall>entry. cache key = Some entry \<and> now - timestamp entry < duration \<longrightarrow>
        result = Inr (data entry) \<and> cache' = cache \<and> requests = []) \<and>
     (\<not> (\<exists>entry. cache key = Some entry \<and> now - timestamp entry < duration) \<longrightarrow> requests \<noteq> []) \<and>
     dom cache \<subseteq> dom cache' \<and>
     (\<forall>k. k \<noteq> key \<longrightarrow> cache' k = cache k)"

text \<open>
  A fetch has failed: the network failed, the request timed out, or the status of the
  response is not OK.
\<close>

definition failed :: "'a fetched \<Rightarrow> bool" where
  "failed a = (case a of NetworkFailure \<Rightarrow> True | Timeout \<Rightarrow> True | HttpResponse ok body \<Rightarrow> \<not> ok)"





chapter \<open>Properties\<close>

section \<open>The hazard scores\<close>

lemma floodScoring_nonneg: "0 \<le> fst (floodScoring month geoData weather)"
  by (simp add: floodScoring_def Let_def bump_def)

lemma earthquakeScoring_nonneg: "0 \<le> fst (earthquakeScoring geoData)"
  by (simp add: earthquakeScoring_def Let_def bump_def)

lemma stormScoring_nonneg: "0 \<le> fst (stormScoring geoData weather)"
  by (simp add: stormScoring_def Let_def bump_def)

lemma fireScoring_nonneg: "0 \<le> fst (fireScoring geoData weather)"
  by (simp add: fireScoring_def Let_def bump_def)

lemma landslideScoring_nonneg: "0 \<le> fst (landslideScoring geoData weather)"
  by (simp add: landslideScoring_def Let_def bump_def)

lemma flood_probability:
  "probability (calculateFloodRisk month geoData weather) =
     (if \<not> nearRiver geoData \<and> \<not> nearCoast geoData \<and> terrain geoData = Flat
      then min (min (fst (floodScoring month geoData weather) / 100) 0.95) 0.25
      else min (fst (floodScoring month geoData weather) / 100) 0.95)"
  by (simp add: calculateFloodRisk_def Let_def split_beta)

lemma earthquake_probability:
  "probability (calculateEarthquakeRisk geoData) = min (fst (earthquakeScoring geoData) / 100) 0.60"
  by (simp add: calculateEarthquakeRisk_def Let_def split_beta)

lemma storm_probability:
  "probability (calculateStormRisk geoData weather) = min (fst (stormScoring geoData weather) / 100) 0.90"
  by (simp add: calculateStormRisk_def Let_def split_beta)

lemma fire_probability:
  "probability (calculateFireRisk geoData weather) = min (fst (fireScoring geoData weather) / 100) 0.80"
  by (simp add: calculateFireRisk_def Let_def split_beta)

lemma landslide_probability:
  "probability (calculateLandslideRisk geoData weather) = min (fst (landslideScoring geoData weather) / 100) 0.85"
  by (simp add: calculateLandslideRisk_def Let_def split_beta)

text \<open>
  Claim C1. Each of the five scoring functions returns a probability between 0 and its
  own maximum (0.95 flood, 0.60 earthquake, 0.90 storm, 0.80 fire, 0.85 landslide),
  whatever the geographic data, the weather and the month: the score is a sum of
  non-negative weights (the fire score is lowered by 20 after rain, and not below 0),
  and the probability is the score divided by 100 and cut at the maximum (for a flat
  place far from water, the flood probability is cut at 0.25 as well).
\<close>

theorem hazard_probability_bounds:
  "0 \<le> probability (calculateFloodRisk month geoData weather) \<and>
   probability (calculateFloodRisk month geoData weather) \<le> 0.95 \<and>
   0 \<le> probability (calculateEarthquakeRisk geoData) \<and>
   probability (calculateEarthquakeRisk geoData) \<le> 0.60 \<and>
   0 \<le> probability (calculateStormRisk geoData weather) \<and>
   probability (calculateStormRisk geoData weather) \<le> 0.90 \<and>
   0 \<le> probability (calculateFireRisk geoData weather) \<and>
   probability (calculateFireRisk geoData weather) \<le> 0.80 \<and>
   0 \<le> probability (calculateLandslideRisk geoData weather) \<and>
   probability (calculateLandslideRisk geoData weather) \<le> 0.85 \<and>
   0 \<le> fst (fireScoring geoData weather) \<and>
   probability (calculateFloodRisk month geoData weather) =
     (if \<not> nearRiver geoData \<and> \<not> nearCoast geoData \<and> terrain geoData = Flat
      then min (min (fst (floodScoring month geoData weather) / 100) 0.95) 0.25
      else min (fst (floodScoring month geoData weather) / 100) 0.95) \<and>
   probability (calculateEarthquakeRisk geoData) = min (fst (earthquakeScoring geoData) / 100) 0.60 \<and>
   probability (calculateStormRisk geoData weather) = min (fst (stormScoring geoData weather) / 100) 0.90 \<and>
   probability (calculateFireRisk geoData weather) = min (fst (fireScoring geoData weather) / 100) 0.80 \<and>
   probability (calculateLandslideRisk geoData weather)
     = min (fst (landslideScoring geoData weather) / 100) 0.85"
proof -
  have flood: "0 \<le> probability (calculateFloodRisk month geoData weather) \<and>
      probability (calculateFloodRisk month geoData weather) \<le> 0.95"
    using floodScoring_nonneg [of month geoData weather]
    by (auto simp: flood_probability min_def)
  have earthquake: "0 \<le> probability (calculateEarthquakeRisk geoData) \<and>
      probability (calculateEarthquakeRisk geoData) \<le> 0.60"
    using earthquakeScoring_nonneg [of geoData]
    by (auto simp: earthquake_probability min_def)
  have storm: "0 \<le> probability (calculateStormRisk geoData weather) \<and>
      probability (calculateStormRisk geoData weather) \<le> 0.90"
    using stormScoring_nonneg [of geoData weather]
    by (auto simp: storm_probability min_def)
  have fire: "0 \<le> probability (calculateFireRisk geoData weather) \<and>
      probability (calculateFireRisk geoData weather) \<le> 0.80"
    using fireScoring_nonneg [of geoData weather]
    by (auto simp: fire_probability min_def)
  have landslide: "0 \<le> probability (calculateLandslideRisk geoData weather) \<and>
      probability (calculateLandslideRisk geoData weather) \<le> 0.85"
    using landslideScoring_nonneg [of geoData weather]
    by (auto simp: landslide_probability min_def)
  from flood earthquake storm fire landslide fireScoring_nonneg [of geoData weather]
    flood_probability [of month geoData weather] earthquake_probability [of geoData]
    storm_probability [of geoData weather] fire_probability [of geoData weather]
    landslide_probability [of geoData weather]
  show ?thesis by blast
qed

subsection \<open>The risk level follows the probability\<close>

lemma getRiskLevel_consistent:
  "(getRiskLevel p = Critical \<longleftrightarrow> p \<ge> 0.70) \<and>
   (getRiskLevel p = High \<longleftrightarrow> 0.45 \<le> p \<and> p < 0.70) \<and>
   (getRiskLevel p = Moderate \<longleftrightarrow> 0.20 \<le> p \<and> p < 0.45) \<and>
   (getRiskLevel p = Low \<longleftrightarrow> p < 0.20)"
  by (simp add: getRiskLevel_def)

lemma levelConsistentI: "riskLevel r = getRiskLevel (probability r) \<Longrightarrow> levelConsistent r"
  unfolding levelConsistent_def using getRiskLevel_consistent [of "probability r"] by simp

text \<open>
  Claim C8. In the result of each of the five scoring functions the risk level and the
  probability agree under the one threshold mapping of \<open>levelConsistent\<close>: critical
  exactly from 0.70, high exactly in [0.45, 0.70), moderate exactly in [0.20, 0.45) and
  low exactly below 0.20.
\<close>

theorem riskLevel_consistent:
  "levelConsistent (calculateFloodRisk month geoData weather) \<and>
   levelConsistent (calculateEarthquakeRisk geoData) \<and>
   levelConsistent (calculateStormRisk geoData weather) \<and>
   levelConsistent (calculateFireRisk geoData weather) \<and>
   levelConsistent (calculateLandslideRisk geoData weather)"
proof (intro conjI)
  show "levelConsistent (calculateFloodRisk month geoData weather)"
    by (rule levelConsistentI) (simp add: calculateFloodRisk_def Let_def split_beta)
  show "levelConsistent (calculateEarthquakeRisk geoData)"
    by (rule levelConsistentI) (simp add: calculateEarthquakeRisk_def Let_def split_beta)
  show "levelConsistent (calculateStormRisk geoData weather)"
    by (rule levelConsistentI) (simp add: calculateStormRisk_def Let_def split_beta)
  show "levelConsistent (calculateFireRisk geoData weather)"
    by (rule levelConsistentI) (simp add: calculateFireRisk_def Let_def split_beta)
  show "levelConsistent (calculateLandslideRisk geoData weather)"
    by (rule levelConsistentI) (simp add: calculateLandslideRisk_def Let_def split_beta)
qed

section \<open>The geographic lookup\<close>

lemma lowerChar_space: "isWhiteSpace c \<Longrightarrow> lowerChar c = c"
  by (auto simp: isWhiteSpace_def lowerChar_def Let_def)

lemma toLowerCase_blank: "list_all isWhiteSpace s \<Longrightarrow> toLowerCase s = s"
  by (induction s) (simp_all add: toLowerCase_def lowerChar_space)

lemma trim_blank: "list_all isWhiteSpace s \<Longrightarrow> trim s = []"
  by (induction s) (simp_all add: trim_def)

lemma normalize_blank: "list_all isWhiteSpace s \<Longrightarrow> trim (toLowerCase s) = []"
  by (simp add: toLowerCase_blank trim_blank)

lemma of_char_less: "(of_char c :: nat) < 256"
  by (cases c) (simp add: of_char_def)

lemma lowerChar_not_upper: "\<not> isUpper (lowerChar c)"
proof -
  have "(of_char c :: nat) < 256" by (rule of_char_less)
  then show ?thesis
    by (auto simp: isUpper_def lowerChar_def Let_def)
qed

lemma set_trim: "set (trim s) \<subseteq> set s"
proof -
  have "set (dropWhile P xs) \<subseteq> set xs" for P and xs :: string
    by (auto dest: set_dropWhileD)
  then show ?thesis unfolding trim_def by (metis set_rev subset_trans)
qed

lemma normalized_no_upper: "c \<in> set (trim (toLowerCase s)) \<Longrightarrow> \<not> isUpper c"
  using set_trim [of "toLowerCase s"] by (auto simp: toLowerCase_def lowerChar_not_upper)

lemma upper_excluded:
  "c \<in> set key \<Longrightarrow> isUpper c \<Longrightarrow> trim (toLowerCase s) \<noteq> key"
  using normalized_no_upper [of c s] by auto

lemma inherited_normalized:
  assumes "trim (toLowerCase s) \<in> set objectPrototypeKeys"
  shows "trim (toLowerCase s) = ''constructor'' \<or> trim (toLowerCase s) = ''__proto__''"
proof -
  have "trim (toLowerCase s) \<noteq> ''__defineGetter__''"
    by (rule upper_excluded [of "CHR ''G''"]) (simp_all add: isUpper_def)
  moreover have "trim (toLowerCase s) \<noteq> ''__defineSetter__''"
    by (rule upper_excluded [of "CHR ''S''"]) (simp_all add: isUpper_def)
  moreover have "trim (toLowerCase s) \<noteq> ''hasOwnProperty''"
    by (rule upper_excluded [of "CHR ''O''"]) (simp_all add: isUpper_def)
  moreover have "trim (toLowerCase s) \<noteq> ''__lookupGetter__''"
    by (rule upper_excluded [of "CHR ''G''"]) (simp_all add: isUpper_def)
  moreover have "trim (toLowerCase s) \<noteq> ''__lookupSetter__''"
    by (rule upper_excluded [of "CHR ''S''"]) (simp_all add: isUpper_def)
  moreover have "trim (toLowerCase s) \<noteq> ''isPrototypeOf''"
    by (rule upper_excluded [of "CHR ''P''"]) (simp_all add: isUpper_def)
  moreover have "trim (toLowerCase s) \<noteq> ''propertyIsEnumerable''"
    by (rule upper_excluded [of "CHR ''I''"]) (simp_all add: isUpper_def)
  moreover have "trim (toLowerCase s) \<noteq> ''toString''"
    by (rule upper_excluded [of "CHR ''S''"]) (simp_all add: isUpper_def)
  moreover have "trim (toLowerCase s) \<noteq> ''valueOf''"
    by (rule upper_excluded [of "CHR ''O''"]) (simp_all add: isUpper_def)
  moreover have "trim (toLowerCase s) \<noteq> ''toLocaleString''"
    by (rule upper_excluded [of "CHR ''L''"]) (simp_all add: isUpper_def)
  ultimately show ?thesis using assms by (simp add: objectPrototypeKeys_def)
qed

lemma table_keys:
  "map fst CITY_GEOGRAPHIC_DATA =
     [''delhi'', ''new delhi'', ''gurgaon'', ''noida'', ''mumbai'', ''chennai'', ''kolkata'',
      ''bangalore'', ''bengaluru'', ''shimla'', ''dehradun'', ''jaipur'', ''default'']"
  by (simp add: CITY_GEOGRAPHIC_DATA_def)

lemma table_distinct: "distinct (map fst CITY_GEOGRAPHIC_DATA)"
  unfolding table_keys by simp

lemma table_not_inherited: "key \<in> set (map fst CITY_GEOGRAPHIC_DATA) \<Longrightarrow> key \<notin> set objectPrototypeKeys"
  unfolding table_keys objectPrototypeKeys_def by auto

lemma getProperty_own:
  "(key, d) \<in> set CITY_GEOGRAPHIC_DATA \<Longrightarrow> getProperty CITY_GEOGRAPHIC_DATA key = Some (GeoRecord d)"
  using table_distinct by (simp add: getProperty_def)

lemma getProperty_inherited:
  "key \<in> set objectPrototypeKeys \<Longrightarrow>
   getProperty CITY_GEOGRAPHIC_DATA key = Some (InheritedValue key)"
proof -
  assume k: "key \<in> set objectPrototypeKeys"
  then have "key \<notin> set (map fst CITY_GEOGRAPHIC_DATA)" using table_not_inherited by blast
  then have "map_of CITY_GEOGRAPHIC_DATA key = None" by (simp add: map_of_eq_None_iff)
  with k show ?thesis by (simp add: getProperty_def)
qed

lemma getProperty_none:
  "key \<notin> fst ` set CITY_GEOGRAPHIC_DATA \<Longrightarrow> key \<notin> set objectPrototypeKeys \<Longrightarrow>
   getProperty CITY_GEOGRAPHIC_DATA key = None"
proof -
  assume "key \<notin> fst ` set CITY_GEOGRAPHIC_DATA" and k: "key \<notin> set objectPrototypeKeys"
  then have "map_of CITY_GEOGRAPHIC_DATA key = None" by (simp add: map_of_eq_None_iff)
  with k show ?thesis by (simp add: getProperty_def)
qed

lemma partialMatch_none:
  "(\<forall>e \<in> set entries. \<not> matches n (fst e)) \<Longrightarrow> partialMatch n entries = None"
  by (induction n entries rule: partialMatch.induct) (auto simp: matches_def)

lemma partialMatch_first:
  "i < length entries \<Longrightarrow> matches n (fst (entries ! i)) \<Longrightarrow>
   (\<forall>j < i. \<not> matches n (fst (entries ! j))) \<Longrightarrow>
   partialMatch n entries = Some (snd (entries ! i))"
proof (induction n entries arbitrary: i rule: partialMatch.induct)
  case (1 n)
  then show ?case by simp
next
  case (2 n key d entries)
  show ?case
  proof (cases i)
    case 0
    with "2.prems" show ?thesis by (simp add: matches_def)
  next
    case (Suc k)
    with "2.prems" have first: "\<not> matches n key" by fastforce
    have "partialMatch n entries = Some (snd (entries ! k))"
    proof (rule "2.IH")
      show "\<not> (str_includes n key \<or> str_includes key n)" using first by (simp add: matches_def)
      show "k < length entries" using "2.prems"(1) Suc by simp
      show "matches n (fst (entries ! k))" using "2.prems"(2) Suc by simp
      show "\<forall>j<k. \<not> matches n (fst (entries ! j))"
      proof (intro allI impI)
        fix j assume "j < k"
        then have "Suc j < i" using Suc by simp
        with "2.prems"(3) have "\<not> matches n (fst (((key, d) # entries) ! Suc j))" by blast
        then show "\<not> matches n (fst (entries ! j))" by simp
      qed
    qed
    with first Suc show ?thesis by (simp add: matches_def)
  qed
qed

lemma getGeographicData_exact:
  "(trim (toLowerCase cityName), d) \<in> set CITY_GEOGRAPHIC_DATA \<Longrightarrow>
   getGeographicData cityName lat lon = GeoRecord d"
  by (simp add: getGeographicData_def getProperty_own)

lemma getGeographicData_inherited:
  "trim (toLowerCase cityName) \<in> set objectPrototypeKeys \<Longrightarrow>
   getGeographicData cityName lat lon = InheritedValue (trim (toLowerCase cityName))"
  by (simp add: getGeographicData_def getProperty_inherited)

lemma getGeographicData_partial:
  "trim (toLowerCase cityName) \<notin> fst ` set CITY_GEOGRAPHIC_DATA \<Longrightarrow>
   trim (toLowerCase cityName) \<notin> set objectPrototypeKeys \<Longrightarrow>
   i < length CITY_GEOGRAPHIC_DATA \<Longrightarrow>
   matches (trim (toLowerCase cityName)) (fst (CITY_GEOGRAPHIC_DATA ! i)) \<Longrightarrow>
   (\<forall>j < i. \<not> matches (trim (toLowerCase cityName)) (fst (CITY_GEOGRAPHIC_DATA ! j))) \<Longrightarrow>
   getGeographicData cityName lat lon = GeoRecord (snd (CITY_GEOGRAPHIC_DATA ! i))"
  by (simp add: getGeographicData_def getProperty_none partialMatch_first)

lemma getGeographicData_estimate:
  "trim (toLowerCase cityName) \<notin> fst ` set CITY_GEOGRAPHIC_DATA \<Longrightarrow>
   trim (toLowerCase cityName) \<notin> set objectPrototypeKeys \<Longrightarrow>
   (\<forall>e \<in> set CITY_GEOGRAPHIC_DATA. \<not> matches (trim (toLowerCase cityName)) (fst e)) \<Longrightarrow>
   getGeographicData cityName lat lon = GeoRecord (estimateGeographicData lat lon)"
  by (simp add: getGeographicData_def getProperty_none partialMatch_none)

lemma getGeographicData_record_iff:
  "(\<exists>d. getGeographicData cityName lat lon = GeoRecord d) \<longleftrightarrow>
     trim (toLowerCase cityName) \<notin> {''constructor'', ''__proto__''}"
proof (cases "trim (toLowerCase cityName) \<in> set objectPrototypeKeys")
  case True
  then have "getGeographicData cityName lat lon = InheritedValue (trim (toLowerCase cityName))"
    by (rule getGeographicData_inherited)
  with inherited_normalized [OF True] show ?thesis by auto
next
  case False
  then have n: "trim (toLowerCase cityName) \<notin> {''constructor'', ''__proto__''}"
    by (auto simp: objectPrototypeKeys_def)
  have "\<exists>d. getGeographicData cityName lat lon = GeoRecord d"
    using False
    by (auto simp: getGeographicData_def getProperty_def Let_def split: option.splits)
  with n show ?thesis by simp
qed

lemma estimate_elevation: "elevation (estimateGeographicData lat lon) \<in> {2000, 800, 10, 80, 200}"
  by (simp add: estimateGeographicData_def Let_def)

lemma estimate_not_delhi:
  "estimateGeographicData lat lon \<noteq> mkGeo 216 Flat True 5 False 1000 4 797 Urban Occasional"
proof
  assume "estimateGeographicData lat lon = mkGeo 216 Flat True 5 False 1000 4 797 Urban Occasional"
  then have "elevation (estimateGeographicData lat lon) = 216" by (simp add: mkGeo_def)
  with estimate_elevation [of lat lon] show False by simp
qed

lemma getGeographicData_blank:
  assumes "list_all isWhiteSpace cityName"
  shows "getGeographicData cityName lat lon
           = GeoRecord (mkGeo 216 Flat True 5 False 1000 4 797 Urban Occasional) \<and>
         map_of CITY_GEOGRAPHIC_DATA ''delhi''
           = Some (mkGeo 216 Flat True 5 False 1000 4 797 Urban Occasional) \<and>
         map_of CITY_GEOGRAPHIC_DATA ''default''
           \<noteq> Some (mkGeo 216 Flat True 5 False 1000 4 797 Urban Occasional) \<and>
         getGeographicData cityName lat lon \<noteq> GeoRecord (estimateGeographicData lat lon)"
proof -
  have n: "trim (toLowerCase cityName) = []" using assms by (rule normalize_blank)
  have "getGeographicData cityName lat lon = GeoRecord (snd (CITY_GEOGRAPHIC_DATA ! 0))"
    by (rule getGeographicData_partial)
      (simp_all add: n table_keys [simplified] objectPrototypeKeys_def matches_def str_includes_def
        CITY_GEOGRAPHIC_DATA_def)
  then have r: "getGeographicData cityName lat lon
      = GeoRecord (mkGeo 216 Flat True 5 False 1000 4 797 Urban Occasional)"
    by (simp add: CITY_GEOGRAPHIC_DATA_def)
  show ?thesis
    unfolding r using estimate_not_delhi [of lat lon]
    by (simp add: CITY_GEOGRAPHIC_DATA_def) (simp add: mkGeo_def)
qed

text \<open>
  Claim C10. The lookup goes through its three stages in order (lemmas
  \<open>getGeographicData_exact\<close>, \<open>getGeographicData_partial\<close>, \<open>getGeographicData_estimate\<close>),
  and a name that is empty or all white space comes out of the substring loop with the
  record of \<^verbatim>\<open>delhi\<close>, the first entry (lemma \<open>getGeographicData_blank\<close>). But the
  function does not return a record for every name. The exact access
  \<^verbatim>\<open>CITY_GEOGRAPHIC_DATA[normalizedCity]\<close> also finds what the table inherits from
  \<^verbatim>\<open>Object.prototype\<close>: for the names \<^verbatim>\<open>constructor\<close> and \<^verbatim>\<open>__proto__\<close> the value
  found is truthy and is returned as it is, the function \<^verbatim>\<open>Object\<close> or the prototype
  object, neither of which has any of the ten fields. These two normalised names are the
  only ones for which the result is not a record.
\<close>

theorem getGeographicData_inherited_key:
  "getGeographicData ''constructor'' lat lon = InheritedValue ''constructor'' \<and>
   getGeographicData ''__proto__'' lat lon = InheritedValue ''__proto__'' \<and>
   ((\<exists>d. getGeographicData cityName lat lon = GeoRecord d) \<longleftrightarrow>
      trim (toLowerCase cityName) \<notin> {''constructor'', ''__proto__''})"
proof (intro conjI)
  show "getGeographicData ''constructor'' lat lon = InheritedValue ''constructor''"
    by (simp add: getGeographicData_def toLowerCase_def lowerChar_def Let_def trim_def isWhiteSpace_def
        getProperty_def CITY_GEOGRAPHIC_DATA_def objectPrototypeKeys_def)
  show "getGeographicData ''__proto__'' lat lon = InheritedValue ''__proto__''"
    by (simp add: getGeographicData_def toLowerCase_def lowerChar_def Let_def trim_def isWhiteSpace_def
        getProperty_def CITY_GEOGRAPHIC_DATA_def objectPrototypeKeys_def)
  show "(\<exists>d. getGeographicData cityName lat lon = GeoRecord d) \<longleftrightarrow>
      trim (toLowerCase cityName) \<notin> {''constructor'', ''__proto__''}"
    by (rule getGeographicData_record_iff)
qed

section \<open>The Haversine distance\<close>

lemma cos_mult_half: "cos x * cos (y::real) = (cos ((x + y) / 2))\<^sup>2 - (sin ((y - x) / 2))\<^sup>2"
proof -
  define m where "m = (x + y) / 2"
  define u where "u = (y - x) / 2"
  have x: "x = m - u" and y: "y = m + u" by (simp_all add: m_def u_def field_simps)
  have "cos x * cos y = (cos m * cos u + sin m * sin u) * (cos m * cos u - sin m * sin u)"
    unfolding x y by (simp add: cos_add cos_diff)
  also have "\<dots> = (cos m * cos u) * (cos m * cos u) - (sin m * sin u) * (sin m * sin u)"
    by (simp only: square_diff_square_factored)
  also have "\<dots> = (cos m)\<^sup>2 * (cos u)\<^sup>2 - (sin m)\<^sup>2 * (sin u)\<^sup>2"
    by (simp only: power2_eq_square mult.assoc mult.left_commute)
  also have "\<dots> = (cos m)\<^sup>2 * (1 - (sin u)\<^sup>2) - (1 - (cos m)\<^sup>2) * (sin u)\<^sup>2"
    by (simp only: cos_squared_eq [of u] sin_squared_eq [of m] diff_diff_eq2 add_diff_cancel_left' diff_add_cancel)
  also have "\<dots> = (cos m)\<^sup>2 - (sin u)\<^sup>2"
    by (simp only: right_diff_distrib left_diff_distrib mult_1 mult_1_right diff_diff_eq2 mult.commute
        diff_add_cancel)
  finally show ?thesis by (simp only: m_def u_def)
qed

lemma haversine_a_bounds:
  fixes p q e :: real
  defines "a \<equiv> sin ((q - p) / 2) * sin ((q - p) / 2) + cos p * cos q * sin (e / 2) * sin (e / 2)"
  shows "0 \<le> a \<and> a \<le> 1"
proof -
  define s where "s = (sin (e / 2))\<^sup>2"
  define U where "U = (sin ((q - p) / 2))\<^sup>2"
  define M where "M = (cos ((p + q) / 2))\<^sup>2"
  have s: "0 \<le> s" "s \<le> 1" and U: "0 \<le> U" "U \<le> 1" and M: "0 \<le> M" "M \<le> 1"
    by (simp_all add: s_def U_def M_def abs_square_le_1)
  have c: "cos p * cos q = M - U" unfolding M_def U_def by (rule cos_mult_half)
  have "a = U + (cos p * cos q) * s"
    unfolding a_def s_def U_def by (simp add: power2_eq_square)
  then have a: "a = U * (1 - s) + M * s" unfolding c by (simp add: algebra_simps)
  have 1: "0 \<le> U * (1 - s)" and 2: "0 \<le> M * s" using s U M by simp_all
  have 3: "U * (1 - s) \<le> 1 - s" using mult_right_mono [of U 1 "1 - s"] U s by simp
  have 4: "M * s \<le> s" using mult_right_mono [of M 1 s] M s by simp
  show ?thesis unfolding a using 1 2 3 4 by (intro conjI) linarith+
qed

lemma calculateDistance_alt:
  "calculateDistance lat1 lon1 lat2 lon2 =
     6371 * (2 * atan2 (sqrt (haversineA lat1 lon1 lat2 lon2)) (sqrt (1 - haversineA lat1 lon1 lat2 lon2)))"
  unfolding calculateDistance_def haversineA_def Let_def by (rule refl)

lemma shelterDistance_alt:
  "shelterDistance lat1 lon1 lat2 lon2 =
     jsRound (6371 * (2 * atan2 (sqrt (haversineA lat1 lon1 lat2 lon2)) (sqrt (1 - haversineA lat1 lon1 lat2 lon2))) * 10) / 10"
  unfolding shelterDistance_def haversineA_def Let_def by (rule refl)

lemma haversineA_bounds: "0 \<le> haversineA lat1 lon1 lat2 lon2 \<and> haversineA lat1 lon1 lat2 lon2 \<le> 1"
proof -
  have eq: "(lat2 - lat1) * pi / 180 / 2 = (lat2 * pi / 180 - lat1 * pi / 180) / 2"
    by (simp add: field_simps)
  show ?thesis
    unfolding haversineA_def eq
    by (rule haversine_a_bounds [of "lat2 * pi / 180" "lat1 * pi / 180" "(lon2 - lon1) * pi / 180"])
qed

lemma sin_half_swap:
  "sin ((a - b) * pi / 180 / 2) * sin ((a - b) * pi / 180 / 2)
     = sin ((b - a) * pi / 180 / 2) * sin ((b - a) * pi / 180 / 2)" for a b :: real
proof -
  have "(a - b) * pi / 180 / 2 = - ((b - a) * pi / 180 / 2)" by (simp add: field_simps)
  then have "sin ((a - b) * pi / 180 / 2) = - sin ((b - a) * pi / 180 / 2)"
    by (simp only: sin_minus)
  then show ?thesis by simp
qed

lemma haversineA_sym: "haversineA lat1 lon1 lat2 lon2 = haversineA lat2 lon2 lat1 lon1"
proof -
  have "haversineA lat1 lon1 lat2 lon2 =
     sin ((lat2 - lat1) * pi / 180 / 2) * sin ((lat2 - lat1) * pi / 180 / 2) +
     cos (lat1 * pi / 180) * cos (lat2 * pi / 180) *
     (sin ((lon2 - lon1) * pi / 180 / 2) * sin ((lon2 - lon1) * pi / 180 / 2))"
    unfolding haversineA_def by (simp only: mult.assoc)
  also have "\<dots> = sin ((lat1 - lat2) * pi / 180 / 2) * sin ((lat1 - lat2) * pi / 180 / 2) +
     cos (lat2 * pi / 180) * cos (lat1 * pi / 180) *
     (sin ((lon1 - lon2) * pi / 180 / 2) * sin ((lon1 - lon2) * pi / 180 / 2))"
    by (simp only: sin_half_swap [of lat2 lat1] sin_half_swap [of lon2 lon1]
        mult.commute [of "cos (lat1 * pi / 180)" "cos (lat2 * pi / 180)"])
  also have "\<dots> = haversineA lat2 lon2 lat1 lon1"
    unfolding haversineA_def by (simp only: mult.assoc)
  finally show ?thesis .
qed

lemma haversineA_self: "haversineA lat lon lat lon = 0"
  by (simp add: haversineA_def)

lemma atan2_nonneg: "0 \<le> y \<Longrightarrow> 0 \<le> x \<Longrightarrow> 0 \<le> atan2 y x"
  by (auto simp: atan2_def)

lemma jsRound_nonneg: "0 \<le> x \<Longrightarrow> 0 \<le> jsRound x"
  by (simp add: jsRound_def)

lemma arc_nonneg:
  "0 \<le> 6371 * (2 * atan2 (sqrt (haversineA lat1 lon1 lat2 lon2)) (sqrt (1 - haversineA lat1 lon1 lat2 lon2)))"
proof -
  have "0 \<le> sqrt (haversineA lat1 lon1 lat2 lon2)" "0 \<le> sqrt (1 - haversineA lat1 lon1 lat2 lon2)"
    using haversineA_bounds [of lat1 lon1 lat2 lon2] by simp_all
  then have "0 \<le> atan2 (sqrt (haversineA lat1 lon1 lat2 lon2)) (sqrt (1 - haversineA lat1 lon1 lat2 lon2))"
    by (rule atan2_nonneg)
  then show ?thesis by simp
qed

lemma calculateDistance_nonneg: "0 \<le> calculateDistance lat1 lon1 lat2 lon2"
  unfolding calculateDistance_alt by (rule arc_nonneg)

lemma calculateDistance_sym:
  "calculateDistance lat1 lon1 lat2 lon2 = calculateDistance lat2 lon2 lat1 lon1"
  unfolding calculateDistance_alt by (simp only: haversineA_sym [of lat1 lon1 lat2 lon2])

lemma calculateDistance_self: "calculateDistance lat lon lat lon = 0"
  unfolding calculateDistance_alt by (simp add: haversineA_self atan2_def)

lemma shelterDistance_nonneg: "0 \<le> shelterDistance lat1 lng1 lat2 lng2"
  unfolding shelterDistance_alt using arc_nonneg [of lat1 lng1 lat2 lng2]
  by (intro divide_nonneg_nonneg jsRound_nonneg mult_nonneg_nonneg) simp_all

lemma shelterDistance_sym:
  "shelterDistance lat1 lng1 lat2 lng2 = shelterDistance lat2 lng2 lat1 lng1"
  unfolding shelterDistance_alt by (simp only: haversineA_sym [of lat1 lng1 lat2 lng2])

lemma shelterDistance_self: "shelterDistance lat lng lat lng = 0"
  unfolding shelterDistance_alt by (simp add: haversineA_self atan2_def jsRound_def)

lemma shelterDistance_rounds:
  "shelterDistance lat1 lng1 lat2 lng2 * 10 \<in> \<int> \<and>
   \<bar>shelterDistance lat1 lng1 lat2 lng2 - calculateDistance lat1 lng1 lat2 lng2\<bar> \<le> 1 / 20"
proof -
  define d where "d = calculateDistance lat1 lng1 lat2 lng2"
  have s: "shelterDistance lat1 lng1 lat2 lng2 = jsRound (d * 10) / 10"
    unfolding shelterDistance_alt d_def calculateDistance_alt ..
  define k where "k = (of_int \<lfloor>d * 10 + 1 / 2\<rfloor> :: real)"
  have k1: "k \<le> d * 10 + 1 / 2" unfolding k_def by (rule of_int_floor_le)
  have k2: "d * 10 + 1 / 2 < k + 1" unfolding k_def by (rule real_of_int_floor_add_one_gt)
  have r: "jsRound (d * 10) = k" by (simp add: jsRound_def k_def)
  have near: "\<bar>k / 10 - d\<bar> \<le> 1 / 20"
    unfolding abs_le_iff using k1 k2 by (intro conjI) linarith+
  have int: "k / 10 * 10 \<in> \<int>" by (simp add: k_def)
  show ?thesis unfolding s r d_def [symmetric] using near int by (intro conjI)
qed

lemma atan2_sqrt_arcsin:
  assumes "0 \<le> a" "a \<le> 1"
  shows "atan2 (sqrt a) (sqrt (1 - a)) = arcsin (sqrt a)"
proof (cases "a = 1")
  case True
  then show ?thesis by (simp add: atan2_def)
next
  case False
  with assms have lt: "a < 1" by simp
  then have pos: "0 < sqrt (1 - a)" by simp
  have "sqrt a < 1" using lt assms by (simp add: real_sqrt_lt_1_iff)
  moreover have "- 1 < sqrt a" using assms by (smt (verit) real_sqrt_ge_zero)
  ultimately have "arcsin (sqrt a) = arctan (sqrt a / sqrt (1 - (sqrt a)\<^sup>2))"
    by (rule arcsin_arctan [rotated])
  also have "(sqrt a)\<^sup>2 = a" using assms by simp
  finally show ?thesis using pos by (simp add: atan2_def)
qed

lemma calculateDistance_haversine:
  "calculateDistance lat1 lon1 lat2 lon2 = 2 * 6371 * arcsin (sqrt (haversineA lat1 lon1 lat2 lon2))"
  unfolding calculateDistance_alt
  using atan2_sqrt_arcsin [of "haversineA lat1 lon1 lat2 lon2"] haversineA_bounds [of lat1 lon1 lat2 lon2]
  by simp

text \<open>
  The formula in exact arithmetic. Both distance functions are the Haversine formula on a
  sphere of radius 6371 km: \<open>calculateDistance\<close> is \<open>2 R arcsin (sqrt a)\<close>, non-negative,
  the same in both directions, and zero from a point to itself; the variant of the
  shelter service is that distance rounded to one decimal place. This is what claim C6
  says of the code, and it is not true of the code: at antipodal points \<open>a\<close> is exactly 1
  (lemma \<open>haversineA_antipodal\<close>), the square root of \<open>1 - a\<close> is taken at the edge of
  its domain, and the doubles of the source overshoot it for some of these points, where
  the value returned is \<^verbatim>\<open>NaN\<close>, neither non-negative nor equal to the value in the
  other direction.
\<close>

lemma haversine_exact_arithmetic:
  "0 \<le> calculateDistance lat1 lon1 lat2 lon2 \<and>
   calculateDistance lat1 lon1 lat2 lon2 = calculateDistance lat2 lon2 lat1 lon1 \<and>
   calculateDistance lat1 lon1 lat1 lon1 = 0 \<and>
   calculateDistance lat1 lon1 lat2 lon2 = 2 * 6371 * arcsin (sqrt (haversineA lat1 lon1 lat2 lon2)) \<and>
   0 \<le> shelterDistance lat1 lon1 lat2 lon2 \<and>
   shelterDistance lat1 lon1 lat2 lon2 = shelterDistance lat2 lon2 lat1 lon1 \<and>
   shelterDistance lat1 lon1 lat1 lon1 = 0 \<and>
   shelterDistance lat1 lon1 lat2 lon2 * 10 \<in> \<int> \<and>
   \<bar>shelterDistance lat1 lon1 lat2 lon2 - calculateDistance lat1 lon1 lat2 lon2\<bar> \<le> 1 / 20"
  using calculateDistance_nonneg [of lat1 lon1 lat2 lon2]
    calculateDistance_sym [of lat1 lon1 lat2 lon2]
    calculateDistance_self [of lat1 lon1]
    calculateDistance_haversine [of lat1 lon1 lat2 lon2]
    shelterDistance_nonneg [of lat1 lon1 lat2 lon2]
    shelterDistance_sym [of lat1 lon1 lat2 lon2]
    shelterDistance_self [of lat1 lon1]
    shelterDistance_rounds [of lat1 lon1 lat2 lon2]
  by blast

lemma haversineA_antipodal: "haversineA lat lon (- lat) (lon + 180) = 1"
proof -
  have a: "(- lat - lat) * pi / 180 / 2 = - (lat * pi / 180)" by simp
  have b: "(lon + 180 - lon) * pi / 180 / 2 = pi / 2" by simp
  have c: "- lat * pi / 180 = - (lat * pi / 180)" by simp
  have "sin (lat * pi / 180) * sin (lat * pi / 180) + cos (lat * pi / 180) * cos (lat * pi / 180) = 1"
    using sin_cos_squared_add [of "lat * pi / 180"] by (simp add: power2_eq_square)
  then show ?thesis
    unfolding haversineA_def a b c by simp
qed

lemma calculateDistance_antipodal: "calculateDistance lat lon (- lat) (lon + 180) = 6371 * pi"
  unfolding calculateDistance_haversine haversineA_antipodal by simp

section \<open>Nearby threats\<close>

lemma calculateNearbyThreats_top10:
  "length (calculateNearbyThreats lat lon quakes nasa gdacs fires warnings) \<le> 10 \<and>
   sorted (map threat_distance (calculateNearbyThreats lat lon quakes nasa gdacs fires warnings))"
  by (simp add: calculateNearbyThreats_def Let_def take_map [symmetric] sorted_wrt_take)

text \<open>
  Claim C9. Whatever the five input lists and the coordinates, the list of nearby threats
  has at most 10 entries and its distances are in ascending order; so has the list that
  the aggregated data carries.
\<close>

theorem nearbyThreats_sorted_top10:
  "length (calculateNearbyThreats lat lon quakes nasa gdacs fires warnings) \<le> 10 \<and>
   sorted (map threat_distance (calculateNearbyThreats lat lon quakes nasa gdacs fires warnings)) \<and>
   length (nearbyThreats (fst (getAggregatedData cache calls lat lon))) \<le> 10 \<and>
   sorted (map threat_distance (nearbyThreats (fst (getAggregatedData cache calls lat lon))))"
  using calculateNearbyThreats_top10 [of lat lon]
  by (simp add: getAggregatedData_def Let_def split_beta)

section \<open>The list of hazard predictions\<close>

lemma flood_july: "probability (calculateFloodRisk 6 (mkGeo 14 Coastal True 2 True 0 3 2422 Urban Frequent) defaultWeather) = 4 / 5"
  by (simp add: calculateFloodRisk_def floodScoring_def mkGeo_def defaultWeather_def bump_def Let_def)

lemma flood_january: "probability (calculateFloodRisk 0 (mkGeo 14 Coastal True 2 True 0 3 2422 Urban Frequent) defaultWeather) = 13 / 20"
  by (simp add: calculateFloodRisk_def floodScoring_def mkGeo_def defaultWeather_def bump_def Let_def)

text \<open>
  Claim C3, as stated, fails for \<open>calculateFloodRisk\<close>: on the same geographic data (the
  record of Mumbai) and the same weather, a run in July (month 6) and a run in January
  (month 0) return different results, with probabilities 0.80 and 0.65.
\<close>

theorem flood_month_counterexample:
  "calculateFloodRisk 6 (mkGeo 14 Coastal True 2 True 0 3 2422 Urban Frequent) defaultWeather
     \<noteq> calculateFloodRisk 0 (mkGeo 14 Coastal True 2 True 0 3 2422 Urban Frequent) defaultWeather"
proof
  assume "calculateFloodRisk 6 (mkGeo 14 Coastal True 2 True 0 3 2422 Urban Frequent) defaultWeather
     = calculateFloodRisk 0 (mkGeo 14 Coastal True 2 True 0 3 2422 Urban Frequent) defaultWeather"
  then have "probability (calculateFloodRisk 6 (mkGeo 14 Coastal True 2 True 0 3 2422 Urban Frequent) defaultWeather)
     = probability (calculateFloodRisk 0 (mkGeo 14 Coastal True 2 True 0 3 2422 Urban Frequent) defaultWeather)"
    by simp
  then show False unfolding flood_july flood_january by simp
qed

lemma floodScoring_month:
  assumes "((5 \<le> m1 \<and> m1 \<le> 8) \<longleftrightarrow> (5 \<le> m2 \<and> m2 \<le> 8)) \<or> annualRainfall g \<le> 1000"
  shows "floodScoring m1 g w = floodScoring m2 g w"
proof -
  have c: "(m1 \<ge> 5 \<and> m1 \<le> 8 \<and> annualRainfall g > 1000) = (m2 \<ge> 5 \<and> m2 \<le> 8 \<and> annualRainfall g > 1000)"
    using assms by auto
  show ?thesis unfolding floodScoring_def c ..
qed

lemma calculateFloodRisk_month:
  "((5 \<le> m1 \<and> m1 \<le> 8) \<longleftrightarrow> (5 \<le> m2 \<and> m2 \<le> 8)) \<or> annualRainfall g \<le> 1000 \<Longrightarrow>
   calculateFloodRisk m1 g w = calculateFloodRisk m2 g w"
  unfolding calculateFloodRisk_def by (simp only: floodScoring_month [of m1 m2 g w])

lemma calculateFloodRisk_trend:
  "trend (calculateFloodRisk m1 g w) = trend (calculateFloodRisk m2 g w)"
  by (simp add: calculateFloodRisk_def Let_def split_beta)

lemma getHazardPredictions_list:
  "fst (getHazardPredictions month wc now now' ans cityName lat lon) =
     (let geoData = asGeographicData (getGeographicData cityName lat lon);
          weather = fst (getWeatherData wc now now' ans lat lon)
      in [calculateFloodRisk month geoData weather,
          calculateEarthquakeRisk geoData,
          calculateStormRisk geoData weather,
          calculateFireRisk geoData weather,
          calculateLandslideRisk geoData weather])"
  by (simp add: getHazardPredictions_def Let_def split_beta)

lemma hazard_types:
  "hazard_type (calculateFloodRisk month g w) = Flood"
  "hazard_type (calculateEarthquakeRisk g) = Earthquake"
  "hazard_type (calculateStormRisk g w) = Storm"
  "hazard_type (calculateFireRisk g w) = Fire"
  "hazard_type (calculateLandslideRisk g w) = Landslide"
  by (simp_all add: calculateFloodRisk_def calculateEarthquakeRisk_def calculateStormRisk_def
      calculateFireRisk_def calculateLandslideRisk_def Let_def split_beta)

text \<open>
  Claim C4. \<open>getHazardPredictions\<close> returns exactly five results, of the types flood,
  earthquake, storm, fire, landslide in this order, each the result of its own scoring
  function on the one geographic record and the one weather record (the fields that
  the scoring functions read from what \<open>getGeographicData\<close> returned, and the result of
  \<open>getWeatherData\<close>); the scoring functions are pure, so no state passes from one to the
  next.
\<close>

theorem getHazardPredictions_five:
  "length (fst (getHazardPredictions month wc now now' ans cityName lat lon)) = 5 \<and>
   map hazard_type (fst (getHazardPredictions month wc now now' ans cityName lat lon))
     = [Flood, Earthquake, Storm, Fire, Landslide] \<and>
   fst (getHazardPredictions month wc now now' ans cityName lat lon) =
     (let geoData = asGeographicData (getGeographicData cityName lat lon);
          weather = fst (getWeatherData wc now now' ans lat lon)
      in [calculateFloodRisk month geoData weather,
          calculateEarthquakeRisk geoData,
          calculateStormRisk geoData weather,
          calculateFireRisk geoData weather,
          calculateLandslideRisk geoData weather])"
  unfolding getHazardPredictions_list by (simp add: Let_def hazard_types)

text \<open>
  Claim C3, amended. The result of \<open>calculateFloodRisk\<close> is a function of the geographic
  data, the weather and the calendar month: two runs on the same data agree whenever
  their months are both inside or both outside June to September, or the annual rainfall
  is at most 1000 mm, and the trend never depends on the month. The other four entries
  of the list of \<open>getHazardPredictions\<close> do not depend on the month.
\<close>

theorem flood_month_dependence:
  "(((5 \<le> m1 \<and> m1 \<le> 8) \<longleftrightarrow> (5 \<le> m2 \<and> m2 \<le> 8)) \<or> annualRainfall g \<le> 1000 \<longrightarrow>
      calculateFloodRisk m1 g w = calculateFloodRisk m2 g w) \<and>
   trend (calculateFloodRisk m1 g w) = trend (calculateFloodRisk m2 g w) \<and>
   tl (fst (getHazardPredictions m1 wc now now' ans cityName lat lon))
     = tl (fst (getHazardPredictions m2 wc now now' ans cityName lat lon))"
  using calculateFloodRisk_month [of m1 m2 g w] calculateFloodRisk_trend [of m1 g w m2]
  by (simp add: getHazardPredictions_list Let_def)

theorem flood_month_dependence_witness:
  "calculateFloodRisk 5 (mkGeo 14 Coastal True 2 True 0 3 2422 Urban Frequent) defaultWeather
     = calculateFloodRisk 8 (mkGeo 14 Coastal True 2 True 0 3 2422 Urban Frequent) defaultWeather \<and>
   calculateFloodRisk 6 (mkGeo 431 Flat False 50 False 500 2 650 Sparse Rare) defaultWeather
     = calculateFloodRisk 0 (mkGeo 431 Flat False 50 False 500 2 650 Sparse Rare) defaultWeather"
  using flood_month_dependence [of 5 8 "mkGeo 14 Coastal True 2 True 0 3 2422 Urban Frequent" defaultWeather
      Map.empty 0 0 NetworkFailure "[]" 0 0]
    flood_month_dependence [of 6 0 "mkGeo 431 Flat False 50 False 500 2 650 Sparse Rare" defaultWeather
      Map.empty 0 0 NetworkFailure "[]" 0 0]
  by (simp add: mkGeo_def)

section \<open>Which inputs a probability depends on\<close>

text \<open>
  Claim C5, as stated, fails for the earthquake: \<open>calculateEarthquakeRisk\<close> takes the
  geographic data only, so no two weather records give different probabilities.
\<close>

theorem earthquake_ignores_weather_counterexample:
  "\<not> (\<exists>month geoData weather1 weather2.
        hazardProbability Earthquake month geoData weather1
          \<noteq> hazardProbability Earthquake month geoData weather2)"
  by (simp add: hazardProbability_def)

lemma flood_weather:
  "hazardProbability Flood month (mkGeo 431 Flat False 50 False 500 2 650 Sparse Rare) defaultWeather = 0"
  "hazardProbability Flood month (mkGeo 431 Flat False 50 False 500 2 650 Sparse Rare)
     (defaultWeather\<lparr>rainfall24h := 60\<rparr>) = 1 / 4"
  by (simp_all add: hazardProbability_def calculateFloodRisk_def floodScoring_def mkGeo_def defaultWeather_def bump_def Let_def)

lemma flood_geo:
  "hazardProbability Flood month (mkGeo 9 Delta True 0 False 100 3 800 Urban Frequent) defaultWeather = 7 / 10"
  by (simp_all add: hazardProbability_def calculateFloodRisk_def floodScoring_def mkGeo_def defaultWeather_def bump_def Let_def)

lemma earthquake_geo:
  "hazardProbability Earthquake month (mkGeo 431 Flat False 50 False 500 2 650 Sparse Rare) weather = 2 / 25"
  "hazardProbability Earthquake month (mkGeo 216 Flat True 5 False 1000 4 797 Urban Occasional) weather = 1 / 4"
  by (simp_all add: hazardProbability_def calculateEarthquakeRisk_def earthquakeScoring_def mkGeo_def defaultWeather_def bump_def Let_def)

lemma storm_both:
  "hazardProbability Storm month (mkGeo 431 Flat False 50 False 500 2 650 Sparse Rare) defaultWeather = 0"
  "hazardProbability Storm month (mkGeo 14 Coastal True 2 True 0 3 2422 Urban Frequent) defaultWeather = 3 / 20"
  "hazardProbability Storm month (mkGeo 431 Flat False 50 False 500 2 650 Sparse Rare)
     (defaultWeather\<lparr>windSpeed := 25\<rparr>) = 2 / 5"
  by (simp_all add: hazardProbability_def calculateStormRisk_def stormScoring_def mkGeo_def defaultWeather_def bump_def Let_def str_includes_def sublist_code)

lemma fire_both:
  "hazardProbability Fire month (mkGeo 431 Flat False 50 False 500 2 650 Sparse Rare) defaultWeather = 0"
  "hazardProbability Fire month (mkGeo 14 Coastal True 2 True 0 3 2422 Urban Frequent) defaultWeather = 1 / 20"
  "hazardProbability Fire month (mkGeo 431 Flat False 50 False 500 2 650 Sparse Rare)
     (defaultWeather\<lparr>humidity := 20\<rparr>) = 3 / 10"
  by (simp_all add: hazardProbability_def calculateFireRisk_def fireScoring_def mkGeo_def defaultWeather_def bump_def Let_def)

lemma landslide_both:
  "hazardProbability Landslide month (mkGeo 431 Flat False 50 False 500 2 650 Sparse Rare) defaultWeather = 1 / 50"
  "hazardProbability Landslide month (mkGeo 2276 Mountainous True 10 False 1200 4 1575 Dense Rare) defaultWeather = 3 / 5"
  "hazardProbability Landslide month (mkGeo 2276 Mountainous True 10 False 1200 4 1575 Dense Rare)
     (defaultWeather\<lparr>rainfall24h := 60\<rparr>) = 17 / 20"
  by (simp_all add: hazardProbability_def calculateLandslideRisk_def landslideScoring_def mkGeo_def defaultWeather_def bump_def Let_def)

text \<open>
  Claim C5, amended. In every month, the probabilities of flood, storm, fire and
  landslide each vary with the geographic data and with the weather; the probability of
  an earthquake varies with the geographic data and is the same for every weather.
\<close>

theorem hazard_inputs_influence:
  "(\<exists>g1 g2 w. hazardProbability Flood month g1 w \<noteq> hazardProbability Flood month g2 w) \<and>
   (\<exists>g w1 w2. hazardProbability Flood month g w1 \<noteq> hazardProbability Flood month g w2) \<and>
   (\<exists>g1 g2 w. hazardProbability Storm month g1 w \<noteq> hazardProbability Storm month g2 w) \<and>
   (\<exists>g w1 w2. hazardProbability Storm month g w1 \<noteq> hazardProbability Storm month g w2) \<and>
   (\<exists>g1 g2 w. hazardProbability Fire month g1 w \<noteq> hazardProbability Fire month g2 w) \<and>
   (\<exists>g w1 w2. hazardProbability Fire month g w1 \<noteq> hazardProbability Fire month g w2) \<and>
   (\<exists>g1 g2 w. hazardProbability Landslide month g1 w \<noteq> hazardProbability Landslide month g2 w) \<and>
   (\<exists>g w1 w2. hazardProbability Landslide month g w1 \<noteq> hazardProbability Landslide month g w2) \<and>
   (\<exists>g1 g2 w. hazardProbability Earthquake month g1 w \<noteq> hazardProbability Earthquake month g2 w) \<and>
   (\<forall>g w1 w2. hazardProbability Earthquake month g w1 = hazardProbability Earthquake month g w2)"
proof (intro conjI)
  let ?jaipur = "mkGeo 431 Flat False 50 False 500 2 650 Sparse Rare"
  let ?mumbai = "mkGeo 14 Coastal True 2 True 0 3 2422 Urban Frequent"
  let ?shimla = "mkGeo 2276 Mountainous True 10 False 1200 4 1575 Dense Rare"
  have "hazardProbability Flood month ?jaipur defaultWeather
      \<noteq> hazardProbability Flood month (mkGeo 9 Delta True 0 False 100 3 800 Urban Frequent) defaultWeather"
    unfolding flood_weather flood_geo by simp
  then show "\<exists>g1 g2 w. hazardProbability Flood month g1 w \<noteq> hazardProbability Flood month g2 w"
    by blast
  have "hazardProbability Flood month ?jaipur defaultWeather
      \<noteq> hazardProbability Flood month ?jaipur (defaultWeather\<lparr>rainfall24h := 60\<rparr>)"
    unfolding flood_weather by simp
  then show "\<exists>g w1 w2. hazardProbability Flood month g w1 \<noteq> hazardProbability Flood month g w2"
    by blast
  have "hazardProbability Storm month ?jaipur defaultWeather
      \<noteq> hazardProbability Storm month ?mumbai defaultWeather"
    unfolding storm_both by simp
  then show "\<exists>g1 g2 w. hazardProbability Storm month g1 w \<noteq> hazardProbability Storm month g2 w"
    by blast
  have "hazardProbability Storm month ?jaipur defaultWeather
      \<noteq> hazardProbability Storm month ?jaipur (defaultWeather\<lparr>windSpeed := 25\<rparr>)"
    unfolding storm_both by simp
  then show "\<exists>g w1 w2. hazardProbability Storm month g w1 \<noteq> hazardProbability Storm month g w2"
    by blast
  have "hazardProbability Fire month ?jaipur defaultWeather
      \<noteq> hazardProbability Fire month ?mumbai defaultWeather"
    unfolding fire_both by simp
  then show "\<exists>g1 g2 w. hazardProbability Fire month g1 w \<noteq> hazardProbability Fire month g2 w"
    by blast
  have "hazardProbability Fire month ?jaipur defaultWeather
      \<noteq> hazardProbability Fire month ?jaipur (defaultWeather\<lparr>humidity := 20\<rparr>)"
    unfolding fire_both by simp
  then show "\<exists>g w1 w2. hazardProbability Fire month g w1 \<noteq> hazardProbability Fire month g w2"
    by blast
  have "hazardProbability Landslide month ?jaipur defaultWeather
      \<noteq> hazardProbability Landslide month ?shimla defaultWeather"
    unfolding landslide_both by simp
  then show "\<exists>g1 g2 w. hazardProbability Landslide month g1 w \<noteq> hazardProbability Landslide month g2 w"
    by blast
  have "hazardProbability Landslide month ?shimla defaultWeather
      \<noteq> hazardProbability Landslide month ?shimla (defaultWeather\<lparr>rainfall24h := 60\<rparr>)"
    unfolding landslide_both by simp
  then show "\<exists>g w1 w2. hazardProbability Landslide month g w1 \<noteq> hazardProbability Landslide month g w2"
    by blast
  have "hazardProbability Earthquake month ?jaipur defaultWeather
      \<noteq> hazardProbability Earthquake month (mkGeo 216 Flat True 5 False 1000 4 797 Urban Occasional) defaultWeather"
    unfolding earthquake_geo by simp
  then show "\<exists>g1 g2 w. hazardProbability Earthquake month g1 w \<noteq> hazardProbability Earthquake month g2 w"
    by blast
  show "\<forall>g w1 w2. hazardProbability Earthquake month g w1 = hazardProbability Earthquake month g w2"
    by (simp add: hazardProbability_def)
qed

section \<open>The caches\<close>

lemma getWeatherData_ttl:
  "(case getWeatherData weatherCache now now' ans lat lon of
      (result, cache', requests) \<Rightarrow>
        ttlCached WEATHER_CACHE_DURATION now weatherCache (toFixed 2 lat, toFixed 2 lon)
          result cache' requests)"
  by (auto simp: getWeatherData_def ttlCached_def Let_def
      split: option.splits fetched.splits bool.splits)

lemma getFromCache_Some:
  "getFromCache cache now key = Some d \<longleftrightarrow>
     (\<exists>entry. cache key = Some entry \<and> now - timestamp entry < CACHE_DURATION \<and> d = data entry)"
  by (auto simp: getFromCache_def split: option.splits)

lemma getFromCache_None:
  "getFromCache cache now key = None \<longleftrightarrow>
     \<not> (\<exists>entry. cache key = Some entry \<and> now - timestamp entry < CACHE_DURATION)"
  by (auto simp: getFromCache_def split: option.splits)

lemma ttlCached_hit:
  "getFromCache cache now key = Some d \<Longrightarrow> ttlCached CACHE_DURATION now cache key d cache []"
  by (auto simp: ttlCached_def getFromCache_Some)

lemma ttlCached_miss_kept:
  "getFromCache cache now key = None \<Longrightarrow> requests \<noteq> [] \<Longrightarrow>
   ttlCached CACHE_DURATION now cache key result cache requests"
  by (auto simp: ttlCached_def getFromCache_None)

lemma ttlCached_miss_stored:
  "getFromCache cache now key = None \<Longrightarrow> requests \<noteq> [] \<Longrightarrow>
   ttlCached CACHE_DURATION now cache key result (setCache cache now' key d) requests"
  by (auto simp: ttlCached_def getFromCache_None setCache_def)

lemma fetchNASAEvents_ttl:
  "(case fetchNASAEvents cache c of
      (result, cache', requests, settled) \<Rightarrow>
        ttlCached CACHE_DURATION (started c) cache () result cache' requests)"
  by (auto simp: fetchNASAEvents_def Let_def ttlCached_hit ttlCached_miss_kept ttlCached_miss_stored
      split: option.splits fetched.splits bool.splits)

lemma fetchGDACSAlerts_ttl:
  "(case fetchGDACSAlerts cache c of
      (result, cache', requests, settled) \<Rightarrow>
        ttlCached CACHE_DURATION (started c) cache () result cache' requests)"
  by (auto simp: fetchGDACSAlerts_def Let_def ttlCached_hit ttlCached_miss_kept ttlCached_miss_stored
      split: option.splits fetched.splits bool.splits)

lemma fetchNASAFIRMS_ttl:
  "(case fetchNASAFIRMS cache c lat lon of
      (result, cache', requests, settled) \<Rightarrow>
        ttlCached CACHE_DURATION (started c) cache (toFixed 1 lat, toFixed 1 lon) result cache' requests)"
  by (auto simp: fetchNASAFIRMS_def Let_def ttlCached_hit ttlCached_miss_kept ttlCached_miss_stored
      split: option.splits fetched.splits bool.splits)

lemma fetchIMDWarnings_ttl:
  "(case fetchIMDWarnings cache c lat lon of
      (result, cache', requests, settled) \<Rightarrow>
        ttlCached CACHE_DURATION (started c) cache (toFixed 2 lat, toFixed 2 lon) result cache' requests)"
  by (auto simp: fetchIMDWarnings_def Let_def ttlCached_hit ttlCached_miss_kept ttlCached_miss_stored
      split: option.splits fetched.splits bool.splits)

lemma fetchUSGSEarthquakes_ttl:
  "(case fetchUSGSEarthquakes cache c lat lon radiusKm of
      (result, cache', requests, settled) \<Rightarrow>
        ttlCached CACHE_DURATION (started c) cache (toFixed 2 lat, toFixed 2 lon) result cache' requests)"
  by (auto simp: fetchUSGSEarthquakes_def Let_def ttlCached_hit ttlCached_miss_kept ttlCached_miss_stored
      split: option.splits fetched.splits bool.splits)

lemma placesLoop_sends: "fst (placesLoop lat lng radius apiKey answers (ty # tys) shelters) \<noteq> []"
  by (simp add: Let_def split_beta split: fetched.splits option.splits)

lemma searchOpenStreetMapShelters_out:
  "(case searchOpenStreetMapShelters shelterCache osmAnswer osmNow lat lng radius of
      (result, cache', requests) \<Rightarrow>
        requests \<noteq> [] \<and> dom shelterCache \<subseteq> dom cache' \<and>
        (\<forall>k. k \<noteq> (toFixed 3 lat, toFixed 3 lng, radius) \<longrightarrow> cache' k = shelterCache k))"
  by (auto simp: searchOpenStreetMapShelters_def Let_def split: fetched.splits option.splits bool.splits)

lemma searchRealShelters_ttl:
  "(case searchRealShelters shelterCache now googleAnswers googleNow osmAnswer osmNow lat lng apiKey radius of
      (result, cache', requests) \<Rightarrow>
        ttlCached SHELTER_CACHE_DURATION now shelterCache (toFixed 3 lat, toFixed 3 lng, radius)
          result cache' requests)"
proof -
  define K where "K = (toFixed 3 lat, toFixed 3 lng, radius)"
  obtain r1 c1 q1 where osm:
    "searchOpenStreetMapShelters shelterCache osmAnswer osmNow lat lng radius = (r1, c1, q1)"
    by (cases "searchOpenStreetMapShelters shelterCache osmAnswer osmNow lat lng radius") auto
  from searchOpenStreetMapShelters_out [where shelterCache = shelterCache and osmAnswer = osmAnswer
      and osmNow = osmNow and lat = lat and lng = lng and radius = radius]
  have o: "q1 \<noteq> [] \<and> dom shelterCache \<subseteq> dom c1 \<and> (\<forall>k. k \<noteq> K \<longrightarrow> c1 k = shelterCache k)"
    unfolding osm K_def by simp
  obtain q2 out where g: "placesLoop lat lng radius apiKey googleAnswers placeTypes [] = (q2, out)"
    by (cases "placesLoop lat lng radius apiKey googleAnswers placeTypes []") auto
  have "fst (placesLoop lat lng radius apiKey googleAnswers placeTypes []) \<noteq> []"
    unfolding placeTypes_def by (rule placesLoop_sends)
  then have q2: "q2 \<noteq> []" unfolding g by simp
  have fresh: "ttlCached SHELTER_CACHE_DURATION now shelterCache K (data entry) shelterCache []"
    if "shelterCache K = Some entry" "now - timestamp entry < SHELTER_CACHE_DURATION" for entry
    using that by (simp add: ttlCached_def)
  have stale: "ttlCached SHELTER_CACHE_DURATION now shelterCache K r c' q"
    if "\<not> (\<exists>entry. shelterCache K = Some entry \<and> now - timestamp entry < SHELTER_CACHE_DURATION)"
      "q \<noteq> []" "dom shelterCache \<subseteq> dom c'" "\<forall>k. k \<noteq> K \<longrightarrow> c' k = shelterCache k" for r c' q
    using that unfolding ttlCached_def by blast
  have upd: "dom shelterCache \<subseteq> dom (shelterCache(K \<mapsto> e))"
    "\<forall>k. k \<noteq> K \<longrightarrow> (shelterCache(K \<mapsto> e)) k = shelterCache k" for e
    by auto
  show ?thesis
  proof (cases "\<exists>entry. shelterCache K = Some entry \<and> now - timestamp entry < SHELTER_CACHE_DURATION")
    case True
    then obtain entry where e: "shelterCache K = Some entry" "now - timestamp entry < SHELTER_CACHE_DURATION"
      by blast
    then show ?thesis
      unfolding searchRealShelters_def Let_def K_def [symmetric] by (simp add: fresh)
  next
    case False
    have keep: "ttlCached SHELTER_CACHE_DURATION now shelterCache K r1 c1 q1"
      using stale [OF False] o by blast
    have keep2: "ttlCached SHELTER_CACHE_DURATION now shelterCache K r1 c1 (q2 @ q1)"
      using stale [OF False, of "q2 @ q1" c1 r1] o by simp
    have store: "ttlCached SHELTER_CACHE_DURATION now shelterCache K r (shelterCache(K \<mapsto> e)) q2" for r e
      using stale [OF False q2 upd] .
    show ?thesis
      unfolding searchRealShelters_def Let_def K_def [symmetric] osm g
      using False keep keep2 store
      by (cases out; cases "shelterCache K") (auto simp: split: option.splits)
  qed
qed

lemma advancedGetFromCache_Some:
  "advancedGetFromCache cache now key = Some d \<longleftrightarrow>
     (\<exists>entry. cache key = Some entry \<and> now - timestamp entry < ADVANCED_CACHE_DURATION \<and> d = data entry)"
  by (auto simp: advancedGetFromCache_def split: option.splits)

lemma advancedGetFromCache_None:
  "advancedGetFromCache cache now key = None \<longleftrightarrow>
     \<not> (\<exists>entry. cache key = Some entry \<and> now - timestamp entry < ADVANCED_CACHE_DURATION)"
  by (auto simp: advancedGetFromCache_def split: option.splits)

lemma advanced_hit:
  "advancedGetFromCache cache now key = Some d \<Longrightarrow>
   ttlCachedOrRejected ADVANCED_CACHE_DURATION now cache key (Inr d) cache []"
  by (auto simp: ttlCachedOrRejected_def advancedGetFromCache_Some)

lemma advanced_miss_kept:
  "advancedGetFromCache cache now key = None \<Longrightarrow> requests \<noteq> [] \<Longrightarrow>
   ttlCachedOrRejected ADVANCED_CACHE_DURATION now cache key result cache requests"
  by (auto simp: ttlCachedOrRejected_def advancedGetFromCache_None)

lemma advanced_miss_stored:
  "advancedGetFromCache cache now key = None \<Longrightarrow> requests \<noteq> [] \<Longrightarrow>
   ttlCachedOrRejected ADVANCED_CACHE_DURATION now cache key result
     (advancedSetCache cache now' key d) requests"
  by (auto simp: ttlCachedOrRejected_def advancedGetFromCache_None advancedSetCache_def)

lemma getEnsemblePrediction_ttl:
  "(case getEnsemblePrediction cache c loc of
      (result, cache', requests) \<Rightarrow>
        ttlCachedOrRejected ADVANCED_CACHE_DURATION (started c) cache
          (loc_latitude loc, loc_longitude loc) result cache' requests)"
  by (auto simp: getEnsemblePrediction_def Let_def advanced_hit advanced_miss_kept advanced_miss_stored
      split: option.splits fetched.splits)

lemma getEnsemblePredictionGet_ttl:
  "(case getEnsemblePredictionGet cache c lat lon district state of
      (result, cache', requests) \<Rightarrow>
        ttlCachedOrRejected ADVANCED_CACHE_DURATION (started c) cache
          (lat, lon, district, state) result cache' requests)"
  by (auto simp: getEnsemblePredictionGet_def Let_def advanced_hit advanced_miss_kept advanced_miss_stored
      split: option.splits fetched.splits)

lemma getAnomalyDetection_ttl:
  "(case getAnomalyDetection cache c lat lon timeWindowHours of
      (result, cache', requests) \<Rightarrow>
        ttlCachedOrRejected ADVANCED_CACHE_DURATION (started c) cache
          (lat, lon, timeWindowHours) result cache' requests)"
  by (auto simp: getAnomalyDetection_def Let_def advanced_hit advanced_miss_kept advanced_miss_stored
      split: option.splits fetched.splits)

lemma fetchRealDisasterAlerts_ttl:
  "(case fetchRealDisasterAlerts alertCache now now' usgsAnswer eonetAnswer lat lng radiusKm of
      (result, cache', requests) \<Rightarrow>
        ttlCached ALERT_CACHE_DURATION now alertCache (toFixed 1 lat, toFixed 1 lng, radiusKm)
          result cache' requests)"
proof -
  define K where "K = (toFixed 1 lat, toFixed 1 lng, radiusKm)"
  show ?thesis
    unfolding fetchRealDisasterAlerts_def Let_def K_def [symmetric]
    by (cases "alertCache K") (auto simp: ttlCached_def)
qed

lemma getWeather_ttl:
  "(case getWeather weatherCache now owm om lat lon of
      (result, cache', requests) \<Rightarrow>
        ttlCachedOrRejected SIMPLE_CACHE_DURATION now weatherCache (toFixed 2 lat, toFixed 2 lon)
          result cache' requests)"
proof -
  define K where "K = (toFixed 2 lat, toFixed 2 lon)"
  show ?thesis
    unfolding getWeather_def Let_def K_def [symmetric]
    by (cases "weatherCache K"; cases "fetchOpenWeatherMap owm"; cases "fetchOpenMeteo om")
      (auto simp: ttlCachedOrRejected_def)
qed

lemma getWeather_stale:
  "weatherCache (toFixed 2 lat, toFixed 2 lon) = Some entry \<Longrightarrow>
   failed (reply_body owm) \<Longrightarrow> failed (reply_body om) \<Longrightarrow>
   fst (getWeather weatherCache now owm om lat lon) = Inr (data entry)"
  by (auto simp: getWeather_def Let_def failed_def fetchOpenWeatherMap_def fetchOpenMeteo_def
      split: fetched.splits bool.splits option.splits)

lemma cleared:
  "advancedGetFromCache (ensemble_entries (advancedClearCache cache)) now k1 = None"
  "advancedGetFromCache (ensembleGet_entries (advancedClearCache cache)) now k2 = None"
  "advancedGetFromCache (anomaly_entries (advancedClearCache cache)) now k3 = None"
  "clearAlertCache alertCache k4 = None"
  "simpleClearCache weatherCache k5 = None"
  by (simp_all add: advancedClearCache_def advancedGetFromCache_def clearAlertCache_def
      simpleClearCache_def)

text \<open>
  Claim C2, as stated, does not hold of every cache: three of the six caches can be
  emptied. An entry of the cache of the advanced prediction service that is one
  millisecond old is served without a request; after \<^verbatim>\<open>clearCache\<close>, at the same clock,
  the same call sends its request (which times out here, so the call rejects).
\<close>

theorem explicit_eviction_counterexample:
  "(let cache = \<lparr>ensemble_entries = advancedSetCache Map.empty 0 (19, 73) (7 :: nat),
                 ensembleGet_entries = Map.empty,
                 anomaly_entries = (Map.empty :: (real \<times> real \<times> real, nat) cache)\<rparr>;
        c = \<lparr>started = 1, answered = 2, answer = Timeout\<rparr>;
        loc = \<lparr>loc_latitude = 19, loc_longitude = 73, loc_district = None, loc_state = None,
               loc_region_type = None\<rparr>
    in getEnsemblePrediction (ensemble_entries cache) c loc = (Inr 7, ensemble_entries cache, []) \<and>
       getEnsemblePrediction (ensemble_entries (advancedClearCache cache)) c loc
         = (Inl FetchRejected, Map.empty, [FloodPredictPost 19 73 None None None]))"
  by (simp add: Let_def getEnsemblePrediction_def advancedGetFromCache_def advancedSetCache_def
      advancedClearCache_def ADVANCED_CACHE_DURATION_def)

text \<open>
  Claim C2, amended. Each of the six caches (the weather cache of the location hazard
  service, the cache of the five fetchers of the disaster data service, the shelter
  cache, the cache of the advanced prediction service, the alert cache and the cache of
  the simple weather service) is a cache with a time to live in the sense of
  \<open>ttlCached\<close>: an entry of the request key whose timestamp is less than the duration
  old at the lookup is returned and no request is sent; without such an entry a request
  is sent; and no cached operation removes an entry or touches another key, so there is
  no limit of size. In the first three services nothing else writes the cache, so an
  entry stops being served through the passing of time alone. The last three services
  also export a function that empties the cache (\<^verbatim>\<open>clearCache\<close>, \<^verbatim>\<open>clearAlertCache\<close>),
  after which no key has an entry; and the simple weather service returns an entry of
  any age when both of its requests have failed.
\<close>

theorem ttl_caches:
  "(case getWeatherData weatherCache now now' ans lat lon of
      (result, cache', requests) \<Rightarrow>
        ttlCached WEATHER_CACHE_DURATION now weatherCache (toFixed 2 lat, toFixed 2 lon)
          result cache' requests) \<and>
   (case fetchNASAEvents cacheN callN of
      (result, cache', requests, settled) \<Rightarrow>
        ttlCached CACHE_DURATION (started callN) cacheN () result cache' requests) \<and>
   (case fetchGDACSAlerts cacheG callG of
      (result, cache', requests, settled) \<Rightarrow>
        ttlCached CACHE_DURATION (started callG) cacheG () result cache' requests) \<and>
   (case fetchNASAFIRMS cacheF callF lat lon of
      (result, cache', requests, settled) \<Rightarrow>
        ttlCached CACHE_DURATION (started callF) cacheF (toFixed 1 lat, toFixed 1 lon)
          result cache' requests) \<and>
   (case fetchIMDWarnings cacheI callI lat lon of
      (result, cache', requests, settled) \<Rightarrow>
        ttlCached CACHE_DURATION (started callI) cacheI (toFixed 2 lat, toFixed 2 lon)
          result cache' requests) \<and>
   (case fetchUSGSEarthquakes cacheU callU lat lon radiusKm of
      (result, cache', requests, settled) \<Rightarrow>
        ttlCached CACHE_DURATION (started callU) cacheU (toFixed 2 lat, toFixed 2 lon)
          result cache' requests) \<and>
   (case searchRealShelters shelterCache now googleAnswers googleNow osmAnswer osmNow lat lon apiKey radius of
      (result, cache', requests) \<Rightarrow>
        ttlCached SHELTER_CACHE_DURATION now shelterCache (toFixed 3 lat, toFixed 3 lon, radius)
          result cache' requests) \<and>
   (case getEnsemblePrediction cacheE callE loc of
      (result, cache', requests) \<Rightarrow>
        ttlCachedOrRejected ADVANCED_CACHE_DURATION (started callE) cacheE
          (loc_latitude loc, loc_longitude loc) result cache' requests) \<and>
   (case getEnsemblePredictionGet cacheP callP lat lon district state of
      (result, cache', requests) \<Rightarrow>
        ttlCachedOrRejected ADVANCED_CACHE_DURATION (started callP) cacheP
          (lat, lon, district, state) result cache' requests) \<and>
   (case getAnomalyDetection cacheA callA lat lon timeWindowHours of
      (result, cache', requests) \<Rightarrow>
        ttlCachedOrRejected ADVANCED_CACHE_DURATION (started callA) cacheA
          (lat, lon, timeWindowHours) result cache' requests) \<and>
   (case fetchRealDisasterAlerts alertCache now now' usgsAnswer eonetAnswer lat lon radiusKm of
      (result, cache', requests) \<Rightarrow>
        ttlCached ALERT_CACHE_DURATION now alertCache (toFixed 1 lat, toFixed 1 lon, radiusKm)
          result cache' requests) \<and>
   (case getWeather simpleWeatherCache now owm om lat lon of
      (result, cache', requests) \<Rightarrow>
        ttlCachedOrRejected SIMPLE_CACHE_DURATION now simpleWeatherCache
          (toFixed 2 lat, toFixed 2 lon) result cache' requests) \<and>
   (simpleWeatherCache (toFixed 2 lat, toFixed 2 lon) = Some stale \<and>
    failed (reply_body owm) \<and> failed (reply_body om) \<longrightarrow>
      fst (getWeather simpleWeatherCache now owm om lat lon) = Inr (data stale)) \<and>
   advancedGetFromCache (ensemble_entries (advancedClearCache advancedCache)) now keyE = None \<and>
   advancedGetFromCache (ensembleGet_entries (advancedClearCache advancedCache)) now keyP = None \<and>
   advancedGetFromCache (anomaly_entries (advancedClearCache advancedCache)) now keyA = None \<and>
   clearAlertCache alertCache keyL = None \<and>
   simpleClearCache simpleWeatherCache keyS = None"
proof -
  have "simpleWeatherCache (toFixed 2 lat, toFixed 2 lon) = Some stale \<and>
    failed (reply_body owm) \<and> failed (reply_body om) \<longrightarrow>
      fst (getWeather simpleWeatherCache now owm om lat lon) = Inr (data stale)"
    using getWeather_stale [of simpleWeatherCache lat lon stale owm om now] by blast
  then show ?thesis
    by (intro conjI getWeatherData_ttl fetchNASAEvents_ttl fetchGDACSAlerts_ttl fetchNASAFIRMS_ttl
        fetchIMDWarnings_ttl fetchUSGSEarthquakes_ttl searchRealShelters_ttl
        getEnsemblePrediction_ttl getEnsemblePredictionGet_ttl getAnomalyDetection_ttl
        fetchRealDisasterAlerts_ttl getWeather_ttl cleared)
qed

theorem ttl_caches_witness:
  "getWeatherData (Map.empty(((False, 0), (False, 0)) \<mapsto> \<lparr>data = defaultWeather, timestamp = 1000\<rparr>))
      600999 700000 NetworkFailure 0 0
     = (defaultWeather,
        Map.empty(((False, 0), (False, 0)) \<mapsto> \<lparr>data = defaultWeather, timestamp = 1000\<rparr>), []) \<and>
   fetchNASAEvents (Map.empty(() \<mapsto> \<lparr>data = [], timestamp = 1000\<rparr>))
      \<lparr>started = 300999, answered = 400000, answer = Timeout\<rparr>
     = ([], Map.empty(() \<mapsto> \<lparr>data = [], timestamp = 1000\<rparr>), [], 300999) \<and>
   snd (snd (searchRealShelters
      (Map.empty(((False, 0), (False, 0), 5000) \<mapsto> \<lparr>data = [], timestamp = 1000\<rparr>))
      901000 (\<lambda>ty. NetworkFailure) 902000 NetworkFailure 903000 0 0 ''demo-key'' 5000)) \<noteq> [] \<and>
   getEnsemblePrediction (Map.empty((19, 73) \<mapsto> \<lparr>data = 7 :: nat, timestamp = 1000\<rparr>))
      \<lparr>started = 300999, answered = 400000, answer = Timeout\<rparr>
      \<lparr>loc_latitude = 19, loc_longitude = 73, loc_district = None, loc_state = None,
       loc_region_type = None\<rparr>
     = (Inr 7, Map.empty((19, 73) \<mapsto> \<lparr>data = 7, timestamp = 1000\<rparr>), []) \<and>
   fst (getWeather (Map.empty(((False, 0), (False, 0)) \<mapsto> \<lparr>data = sampleWeather, timestamp = 1000\<rparr>))
      901000 \<lparr>reply_body = Timeout, readAt = 902000, storedAt = 902000\<rparr>
      \<lparr>reply_body = HttpResponse False None, readAt = 903000, storedAt = 903000\<rparr> 0 0)
     = Inr sampleWeather"
proof -
  have w: "getWeatherData (Map.empty(((False, 0), (False, 0)) \<mapsto> \<lparr>data = defaultWeather, timestamp = 1000\<rparr>))
      600999 700000 NetworkFailure 0 0
     = (defaultWeather,
        Map.empty(((False, 0), (False, 0)) \<mapsto> \<lparr>data = defaultWeather, timestamp = 1000\<rparr>), [])"
    using ttl_caches [where weatherCache = "Map.empty(((False, 0), (False, 0)) \<mapsto> \<lparr>data = defaultWeather, timestamp = 1000\<rparr>)"
      and now = 600999 and now' = 700000 and ans = NetworkFailure and lat = 0 and lon = 0,
      THEN conjunct1]
    by (simp add: ttlCached_def split_beta prod_eq_iff toFixed_def WEATHER_CACHE_DURATION_def)
  have n: "fetchNASAEvents (Map.empty(() \<mapsto> \<lparr>data = [], timestamp = 1000\<rparr>))
      \<lparr>started = 300999, answered = 400000, answer = Timeout\<rparr>
     = ([], Map.empty(() \<mapsto> \<lparr>data = [], timestamp = 1000\<rparr>), [], 300999)"
    using ttl_caches [where cacheN = "Map.empty(() \<mapsto> \<lparr>data = [], timestamp = 1000\<rparr>)"
      and callN = "\<lparr>started = 300999, answered = 400000, answer = Timeout\<rparr>",
      THEN conjunct2, THEN conjunct1]
    by (simp add: ttlCached_def split_beta prod_eq_iff CACHE_DURATION_def fetchNASAEvents_def
        getFromCache_def)
  have s: "snd (snd (searchRealShelters
      (Map.empty(((False, 0), (False, 0), 5000) \<mapsto> \<lparr>data = [], timestamp = 1000\<rparr>))
      901000 (\<lambda>ty. NetworkFailure) 902000 NetworkFailure 903000 0 0 ''demo-key'' 5000)) \<noteq> []"
    using ttl_caches [where shelterCache = "Map.empty(((False, 0), (False, 0), 5000) \<mapsto> \<lparr>data = [], timestamp = 1000\<rparr>)"
      and now = 901000 and googleAnswers = "\<lambda>ty. NetworkFailure" and googleNow = 902000
      and osmAnswer = NetworkFailure and osmNow = 903000 and lat = 0 and lon = 0
      and apiKey = "''demo-key''" and radius = 5000,
      THEN conjunct2, THEN conjunct2, THEN conjunct2, THEN conjunct2, THEN conjunct2,
      THEN conjunct2, THEN conjunct1]
    by (simp add: ttlCached_def split_beta prod_eq_iff toFixed_def SHELTER_CACHE_DURATION_def)
  have e: "getEnsemblePrediction (Map.empty((19, 73) \<mapsto> \<lparr>data = 7 :: nat, timestamp = 1000\<rparr>))
      \<lparr>started = 300999, answered = 400000, answer = Timeout\<rparr>
      \<lparr>loc_latitude = 19, loc_longitude = 73, loc_district = None, loc_state = None,
       loc_region_type = None\<rparr>
     = (Inr 7, Map.empty((19, 73) \<mapsto> \<lparr>data = 7, timestamp = 1000\<rparr>), [])"
    using ttl_caches [where cacheE = "Map.empty((19, 73) \<mapsto> \<lparr>data = 7 :: nat, timestamp = 1000\<rparr>)"
      and callE = "\<lparr>started = 300999, answered = 400000, answer = Timeout\<rparr>"
      and loc = "\<lparr>loc_latitude = 19, loc_longitude = 73, loc_district = None, loc_state = None,
       loc_region_type = None\<rparr>",
      THEN conjunct2, THEN conjunct2, THEN conjunct2, THEN conjunct2, THEN conjunct2,
      THEN conjunct2, THEN conjunct2, THEN conjunct1]
    by (simp add: ttlCachedOrRejected_def split_beta prod_eq_iff ADVANCED_CACHE_DURATION_def)
  have g: "fst (getWeather (Map.empty(((False, 0), (False, 0)) \<mapsto> \<lparr>data = sampleWeather, timestamp = 1000\<rparr>))
      901000 \<lparr>reply_body = Timeout, readAt = 902000, storedAt = 902000\<rparr>
      \<lparr>reply_body = HttpResponse False None, readAt = 903000, storedAt = 903000\<rparr> 0 0)
     = Inr sampleWeather"
    using ttl_caches [where simpleWeatherCache = "Map.empty(((False, 0), (False, 0)) \<mapsto> \<lparr>data = sampleWeather, timestamp = 1000\<rparr>)"
      and now = 901000 and owm = "\<lparr>reply_body = Timeout, readAt = 902000, storedAt = 902000\<rparr>"
      and om = "\<lparr>reply_body = HttpResponse False None, readAt = 903000, storedAt = 903000\<rparr>"
      and lat = 0 and lon = 0 and stale = "\<lparr>data = sampleWeather, timestamp = 1000\<rparr>",
      THEN conjunct2, THEN conjunct2, THEN conjunct2, THEN conjunct2, THEN conjunct2,
      THEN conjunct2, THEN conjunct2, THEN conjunct2, THEN conjunct2, THEN conjunct2,
      THEN conjunct2, THEN conjunct2, THEN conjunct1]
    by (simp add: toFixed_def failed_def)
  from w n s e g show ?thesis by blast
qed

section \<open>Failing fetches and the aggregated data\<close>










end
